theory Spec2Isabelle
  imports Main
begin

section \<open>JavaScript values, strings and errors\<close>

text \<open>
  The two commands are TypeScript. An option declared \<open>boolean | string\<close> is a
  \<open>jsval\<close>; an option that may be \<open>undefined\<close> is an \<open>option\<close>, with \<open>None\<close>
  for \<open>undefined\<close>. A field that the source destructures with a default value
  (\<open>all = false\<close>, \<open>message = ''\<close>) holds the value after the default is applied.
  The conditions of the source test truthiness: \<open>false\<close>, \<open>undefined\<close> and the
  empty string are falsy, every other boolean and string is truthy.
\<close>

datatype jsval = JBool bool | JStr string

fun truthy :: "jsval \<Rightarrow> bool" where
  "truthy (JBool b) = b"
| "truthy (JStr s) = (s \<noteq> [])"

definition truthy_str :: "string \<Rightarrow> bool" where
  "truthy_str s = (s \<noteq> [])"

definition truthy_bool :: "bool \<Rightarrow> bool" where
  "truthy_bool b = b"

fun truthy_opt :: "('a \<Rightarrow> bool) \<Rightarrow> 'a option \<Rightarrow> bool" where
  "truthy_opt t None = False"
| "truthy_opt t (Some v) = t v"

text \<open>\<open>typeof v === 'string'\<close> on a \<open>boolean | string\<close> value.\<close>

fun is_string :: "jsval \<Rightarrow> bool" where
  "is_string (JStr s) = True"
| "is_string (JBool b) = False"

text \<open>
  A thrown exception is the left summand of the result. \<open>BitError\<close> is the class
  both commands throw; \<open>OtherError\<close> stands for whatever a collaborator (the tag
  engine, the merge engine, \<open>getMergeStrategy\<close>) throws.
\<close>

datatype error = BitError string | OtherError string

definition dq :: string where "dq = [CHR 0x22]"
definition sq :: string where "sq = [CHR 0x27]"
definition nl :: string where "nl = [CHR 0x0A]"
definition tab :: string where "tab = [CHR 0x09]"

text \<open>\<open>Array.prototype.join\<close> on an array of strings.\<close>

fun js_join :: "string \<Rightarrow> string list \<Rightarrow> string" where
  "js_join sep [] = []"
| "js_join sep [x] = x"
| "js_join sep (x # y # ys) = x @ sep @ js_join sep (y # ys)"

text \<open>\<open>Number.prototype.toString\<close> on an array length (a natural number).\<close>

fun toString_nat :: "nat \<Rightarrow> string" where
  "toString_nat n =
     (if n < 10 then [char_of (48 + n)]
      else toString_nat (n div 10) @ [char_of (48 + n mod 10)])"

declare toString_nat.simps [simp del]

text \<open>
  lodash \<open>compact\<close> on an array of strings and \<open>null\<close>s: it drops every falsy
  element, which is \<open>null\<close> and the empty string.
\<close>

fun compact :: "string option list \<Rightarrow> string list" where
  "compact [] = []"
| "compact (None # xs) = compact xs"
| "compact (Some s # xs) = (if s = [] then compact xs else s # compact xs)"

section \<open>The tag command: options and parameters\<close>

definition RELEASE_TYPES :: "string list" where
  "RELEASE_TYPES =
     [''major'', ''premajor'', ''minor'', ''preminor'', ''patch'', ''prepatch'', ''prerelease'']"

text \<open>
  Modelled from the spec: the constant \<open>DEFAULT_BIT_RELEASE_TYPE\<close> is imported from
  the constants module, which is not among the sources. The spec and the help text of
  \<open>--increment\<close> in \<open>tag-cmd.ts\<close> (\<open>default to patch\<close>) give its value.
\<close>

definition DEFAULT_BIT_RELEASE_TYPE :: string where
  "DEFAULT_BIT_RELEASE_TYPE = ''patch''"

text \<open>The second argument of \<open>TagCmd.report\<close>, in the order of the destructuring.\<close>

record tag_options =
  opt_message :: string
  opt_ver :: "string option"
  opt_all :: jsval
  opt_editor :: string
  opt_snapped :: bool
  opt_unmerged :: bool
  opt_patch :: "bool option"
  opt_minor :: "bool option"
  opt_major :: "bool option"
  opt_preRelease :: "jsval option"
  opt_increment :: "string option"
  opt_prereleaseId :: "string option"
  opt_force :: bool
  opt_ignoreUnresolvedDependencies :: "bool option"
  opt_ignoreIssues :: "jsval option"
  opt_ignoreNewestVersion :: bool
  opt_skipTests :: bool
  opt_skipAutoTag :: bool
  opt_scope :: "jsval option"
  opt_unmodified :: bool
  opt_build :: "bool option"
  opt_soft :: bool
  opt_persist :: bool
  opt_disableDeployPipeline :: bool
  opt_disableTagPipeline :: bool
  opt_forceDeploy :: bool
  opt_incrementBy :: int

text \<open>The object \<open>params\<close> that \<open>TagCmd.report\<close> hands to the tag engine.\<close>

record tag_params =
  p_ids :: "string list"
  p_snapped :: bool
  p_unmerged :: bool
  p_editor :: string
  p_message :: string
  p_releaseType :: string
  p_preReleaseId :: "string option"
  p_ignoreIssues :: "jsval option"
  p_ignoreNewestVersion :: bool
  p_skipTests :: bool
  p_skipAutoTag :: bool
  p_build :: "bool option"
  p_soft :: bool
  p_persist :: bool
  p_unmodified :: bool
  p_disableTagAndSnapPipelines :: bool
  p_forceDeploy :: bool
  p_incrementBy :: int
  p_version :: "string option"

text \<open>
  The closure \<open>getReleaseType\<close> (lines 183-196): an \<open>increment\<close> that is set is
  checked against \<open>RELEASE_TYPES\<close> and returned; otherwise the sugar flags are read in
  the order major, minor, patch, pre-release, and the default comes last.
\<close>

definition getReleaseType :: "tag_options \<Rightarrow> error + string" where
  "getReleaseType opts =
     (if truthy_opt truthy_str (opt_increment opts) then
        (if the (opt_increment opts) \<notin> set RELEASE_TYPES then
           Inl (BitError (''invalid increment-level '' @ dq @ the (opt_increment opts) @ dq
                  @ ''.'' @ nl @ ''  semver allows the following options only: ''
                  @ js_join '', '' RELEASE_TYPES))
         else Inr (the (opt_increment opts)))
      else if truthy_opt truthy_bool (opt_major opts) then Inr ''major''
      else if truthy_opt truthy_bool (opt_minor opts) then Inr ''minor''
      else if truthy_opt truthy_bool (opt_patch opts) then Inr ''patch''
      else if truthy_opt truthy (opt_preRelease opts) then Inr ''prerelease''
      else Inr DEFAULT_BIT_RELEASE_TYPE)"

text \<open>The closure \<open>getPreReleaseId\<close> (lines 197-205).\<close>

definition getPreReleaseId :: "tag_options \<Rightarrow> string option" where
  "getPreReleaseId opts =
     (if truthy_opt truthy_str (opt_prereleaseId opts) then opt_prereleaseId opts
      else (case opt_preRelease opts of
              Some (JStr s) \<Rightarrow> (if s \<noteq> [] then Some s else None)
            | _ \<Rightarrow> None))"

text \<open>
  The variable \<open>ver\<close> after lines 151-165: a string value of \<open>--all\<close> replaces it,
  then a string value of \<open>--scope\<close> replaces it again.
\<close>

definition resolvedVer :: "tag_options \<Rightarrow> string option" where
  "resolvedVer opts =
     (let ver1 = (if truthy (opt_all opts) \<and> is_string (opt_all opts)
                  then (case opt_all opts of JStr s \<Rightarrow> Some s | JBool b \<Rightarrow> opt_ver opts)
                  else opt_ver opts)
      in (case opt_scope opts of
            Some (JStr s) \<Rightarrow> (if s \<noteq> [] then Some s else ver1)
          | _ \<Rightarrow> ver1))"

text \<open>
  The variable \<open>unmodified\<close> after lines 159-171: \<open>--scope\<close> sets it, and so does
  \<open>--force\<close> when patterns are given.
\<close>

definition resolvedUnmodified :: "string list \<Rightarrow> tag_options \<Rightarrow> bool" where
  "resolvedUnmodified patterns opts =
     (let unmodified1 = (if truthy_opt truthy (opt_scope opts) then True else opt_unmodified opts)
      in if opt_force opts \<and> patterns \<noteq> [] then True else unmodified1)"

text \<open>The warnings that lines 143-171 send to the logger, in order.\<close>

definition deprecationWarnings :: "tag_options \<Rightarrow> string list" where
  "deprecationWarnings opts =
     (if opt_disableDeployPipeline opts
      then [''--disable-deploy-pipeline is deprecated, please use --disable-tag-pipeline instead'']
      else [])
     @ (if \<not> truthy_str (opt_message opts) \<and> \<not> opt_persist opts
        then [''--message will be mandatory in the next few releases. make sure to add a message with your tag'']
        else [])
     @ (if truthy (opt_all opts)
        then [''--all is deprecated, please omit it. '' @ dq @ ''bit tag'' @ dq
              @ '' by default will tag all new and modified components. to specify a version, use --ver flag'']
        else [])
     @ (if truthy_opt truthy (opt_scope opts)
        then [''--scope is deprecated, use --unmodified instead'']
        else [])
     @ (if opt_force opts
        then [''--force is deprecated, use either --skip-tests or --unmodified depending on the use case'']
        else [])"

text \<open>\<open>releaseFlags\<close> of line 178: the truthy ones among the four sugar flags.\<close>

definition releaseFlags :: "tag_options \<Rightarrow> bool list" where
  "releaseFlags opts =
     filter (\<lambda>x. x)
       [truthy_opt truthy_bool (opt_patch opts), truthy_opt truthy_bool (opt_minor opts),
        truthy_opt truthy_bool (opt_major opts), truthy_opt truthy (opt_preRelease opts)]"

text \<open>
  Lines 137-229 of \<open>TagCmd.report\<close>: everything the command does before it calls the
  tag engine. The result is the list of warnings logged and either the error thrown or
  the \<open>params\<close> object. The first two checks throw before any warning is logged.
\<close>

definition tagParams :: "string list \<Rightarrow> tag_options \<Rightarrow> string list \<times> (error + tag_params)" where
  "tagParams patterns opts =
     (if opt_ignoreUnresolvedDependencies opts \<noteq> None then
        ([], Inl (BitError ''--ignore-unresolved-dependencies has been removed, please use --ignore-issues instead''))
      else if opt_ignoreIssues opts = Some (JBool True) then
        ([], Inl (BitError (''--ignore-issues expects issues to be ignored, please run '' @ dq
                    @ ''bit tag -h'' @ dq @ '' for the issues list'')))
      else if truthy_opt truthy_str (opt_prereleaseId opts)
              \<and> (\<not> truthy_opt truthy_str (opt_increment opts)
                   \<or> opt_increment opts = Some ''major''
                   \<or> opt_increment opts = Some ''minor''
                   \<or> opt_increment opts = Some ''patch'') then
        (deprecationWarnings opts,
         Inl (BitError ''--prerelease-id should be entered along with --increment flag, while --increment must be one of the following: [prepatch, prerelease, preminor, premajor]''))
      else if 1 < length (releaseFlags opts) then
        (deprecationWarnings opts,
         Inl (BitError ''you can use only one of the following - patch, minor, major, pre-release''))
      else
        (case getReleaseType opts of
           Inl e \<Rightarrow> (deprecationWarnings opts, Inl e)
         | Inr rt \<Rightarrow>
             (deprecationWarnings opts,
              Inr \<lparr> p_ids = patterns,
                    p_snapped = opt_snapped opts,
                    p_unmerged = opt_unmerged opts,
                    p_editor = opt_editor opts,
                    p_message = opt_message opts,
                    p_releaseType = rt,
                    p_preReleaseId = getPreReleaseId opts,
                    p_ignoreIssues = opt_ignoreIssues opts,
                    p_ignoreNewestVersion = opt_ignoreNewestVersion opts,
                    p_skipTests = opt_skipTests opts,
                    p_skipAutoTag = opt_skipAutoTag opts,
                    p_build = opt_build opts,
                    p_soft = opt_soft opts,
                    p_persist = opt_persist opts,
                    p_unmodified = resolvedUnmodified patterns opts,
                    p_disableTagAndSnapPipelines =
                      (opt_disableTagPipeline opts \<or> opt_disableDeployPipeline opts),
                    p_forceDeploy = opt_forceDeploy opts,
                    p_incrementBy = opt_incrementBy opts,
                    p_version = resolvedVer opts \<rparr>)))"

section \<open>What both commands take from outside these sources\<close>

text \<open>
  The styling library \<open>chalk\<close>, the methods of component ids (\<open>BitId\<close>, \<open>BitIds\<close>), the
  message constants of the constants module and the feature toggle are not among the
  sources. They are the fields of an environment that every function below takes, so
  that what is proved holds whatever they are.
\<close>

datatype chalk_style = Yellow | Green | Underline | Bold | White | Red | Cyan | BoldUnderline

record 'id env =
  chalk :: "chalk_style \<Rightarrow> string \<Rightarrow> string"
  idToString :: "'id \<Rightarrow> string"
  idToStringWithoutVersion :: "'id \<Rightarrow> string"
  searchWithoutVersion :: "'id list \<Rightarrow> 'id \<Rightarrow> bool"
  searchWithoutScopeAndVersion :: "'id list \<Rightarrow> 'id \<Rightarrow> bool"
  NOTHING_TO_TAG_MSG :: string
  AUTO_TAGGED_MSG :: string
  AUTO_SNAPPED_MSG :: string
  MergeConfigFilename :: string
  FileStatus_manual :: string
  isFeatureEnabled_BUILD_ON_CI :: bool

section \<open>The tag command: the report\<close>

text \<open>
  Of a component the report reads only its id, so a component is its id here. The two
  search methods return an id or \<open>undefined\<close>; the report tests the truthiness only.
  \<open>autoTaggedResults\<close> and \<open>warnings\<close> are arrays, as their type declares them; an
  absent \<open>warnings\<close> prints like an empty one. \<open>publishedPackages\<close> may be absent.
\<close>

record 'id AutoTagResult =
  component :: 'id
  triggeredBy :: "'id list"

record 'id TagResults =
  taggedComponents :: "'id list"
  autoTaggedResults :: "'id AutoTagResult list"
  warnings :: "string list"
  newComponents :: "'id list"
  isSoftTag :: bool
  publishedPackages :: "string list option"

definition tagOutputComponents :: "'id env \<Rightarrow> 'id TagResults \<Rightarrow> 'id list \<Rightarrow> string" where
  "tagOutputComponents e results comps =
     js_join nl
       (map (\<lambda>c.
          (let autoTag = filter (\<lambda>r. searchWithoutScopeAndVersion e (triggeredBy r) c)
                           (autoTaggedResults results)
           in ''     > '' @ idToString e c
              @ (if autoTag \<noteq> []
                 then nl @ ''       '' @ AUTO_TAGGED_MSG e @ '':'' @ nl @ ''            ''
                      @ js_join (nl @ ''            '') (map (\<lambda>a. idToString e (component a)) autoTag)
                 else [])))
        comps)"

definition publishOutput :: "'id env \<Rightarrow> 'id TagResults \<Rightarrow> string" where
  "publishOutput e results =
     (case publishedPackages results of
        None \<Rightarrow> []
      | Some pkgs \<Rightarrow>
          if pkgs = [] then []
          else (let successTitle =
                      nl @ nl @ chalk e Green (''published the following '' @ toString_nat (length pkgs)
                                                @ '' component(s) successfully'' @ nl);
                    successCompsStr = js_join nl pkgs
                in if successCompsStr \<noteq> [] then successTitle @ successCompsStr else []))"

definition outputIfExists :: "'id env \<Rightarrow> 'id TagResults \<Rightarrow> string \<Rightarrow> string \<Rightarrow> 'id list \<Rightarrow> string" where
  "outputIfExists e results label explanation comps =
     (if comps = [] then []
      else nl @ chalk e Underline ((if isSoftTag results then ''soft-tagged '' else []) @ label)
           @ nl @ ''('' @ explanation @ '')'' @ nl @ tagOutputComponents e results comps @ nl)"

text \<open>Lines 233-301: the text for a result that is not \<open>null\<close>.\<close>

definition tagOutput :: "'id env \<Rightarrow> 'id TagResults \<Rightarrow> string" where
  "tagOutput e results =
     (let changedComponents =
            filter (\<lambda>c. \<not> searchWithoutVersion e (newComponents results) c) (taggedComponents results);
          addedComponents =
            filter (\<lambda>c. searchWithoutVersion e (newComponents results) c) (taggedComponents results);
          autoTaggedCount = length (autoTaggedResults results);
          warningsOutput =
            (if warnings results \<noteq> []
             then chalk e Yellow (js_join nl (warnings results)) @ nl @ nl else []);
          tagExplanationPersist =
            nl @ ''(use '' @ dq @ ''bit export [collection]'' @ dq
            @ '' to push these components to a remote'' @ dq @ '')'' @ nl
            @ ''(use '' @ dq @ ''bit reset'' @ dq @ '' to unstage versions)'' @ nl;
          tagExplanationSoft =
            nl @ ''(use '' @ dq @ ''bit tag --persist'' @ dq @ '' to persist the changes'' @ dq @ '')'' @ nl
            @ ''(use '' @ dq @ ''bit reset --soft'' @ dq @ '' to remove the soft-tags)'' @ nl;
          tagExplanation = (if isSoftTag results then tagExplanationSoft else tagExplanationPersist);
          newDesc = (if isSoftTag results
                     then ''set to be tagged first version for components''
                     else ''first version for components'');
          changedDesc = (if isSoftTag results
                         then ''components that set to get a version bump''
                         else ''components that got a version bump'');
          softTagClarification =
            (if isSoftTag results
             then chalk e Bold ''keep in mind that this is a soft-tag (changes recorded to be tagged), to persist the changes use --persist flag''
             else [])
      in warningsOutput
         @ chalk e Green (toString_nat (length (taggedComponents results) + autoTaggedCount)
                          @ '' component(s) '' @ (if isSoftTag results then ''soft-'' else [])
                          @ ''tagged'')
         @ tagExplanation
         @ outputIfExists e results ''new components'' newDesc addedComponents
         @ outputIfExists e results ''changed components'' changedDesc changedComponents
         @ publishOutput e results
         @ softTagClarification)"

text \<open>
  \<open>TagCmd.report\<close>. The tag engine \<open>this.snapping.tag\<close> is a parameter: it takes the
  \<open>params\<close> object and the state of the store, and gives back the new state with
  either the error it throws or its result, \<open>None\<close> for \<open>null\<close>. The command gives
  back the text or the error, the warnings it logged, and the state of the store.
\<close>

definition TagCmd_report ::
  "'id env \<Rightarrow> (tag_params \<Rightarrow> 'st \<Rightarrow> (error + 'id TagResults option) \<times> 'st)
     \<Rightarrow> string list \<Rightarrow> tag_options \<Rightarrow> 'st \<Rightarrow> (error + string) \<times> string list \<times> 'st" where
  "TagCmd_report e snapping_tag patterns opts st =
     (case tagParams patterns opts of
        (ws, Inl err) \<Rightarrow> (Inl err, ws, st)
      | (ws, Inr params) \<Rightarrow>
          (case snapping_tag params st of
             (Inl err, st') \<Rightarrow> (Inl err, ws, st')
           | (Inr None, st') \<Rightarrow> (Inr (chalk e Yellow (NOTHING_TO_TAG_MSG e)), ws, st')
           | (Inr (Some results), st') \<Rightarrow> (Inr (tagOutput e results), ws, st')))"

section \<open>The merge command\<close>

text \<open>
  The result of the merge engine. \<open>filesStatus\<close> is an object read through
  \<open>Object.keys\<close>: the list of its entries in key order. \<open>FileStatus\<close> is a string
  enumeration. \<open>unchangedLegitimately\<close> is optional in the source and only tested for
  truthiness; \<open>False\<close> stands for \<open>undefined\<close> too. Of \<open>mergeSnapError\<close> only the
  message is read.
\<close>

record 'id ApplyVersionResult =
  av_id :: 'id
  filesStatus :: "(string \<times> string) list"

record 'id FailedComponents =
  fc_id :: 'id
  failureMessage :: string
  unchangedLegitimately :: bool

record 'id MergeSnapResults =
  snappedComponents :: "'id list"
  autoSnappedResults :: "'id AutoTagResult list"

record ConfigMergeResult =
  compIdStr :: string
  hasConflicts :: bool

record 'id ApplyVersionResults =
  components :: "'id ApplyVersionResult list option"
  failedComponents :: "'id FailedComponents list option"
  removedComponents :: "'id list option"
  r_version :: "string option"
  resolvedComponents :: "'id list option"
  abortedComponents :: "'id list option"
  mergeSnapResults :: "'id MergeSnapResults option"
  mergeSnapError :: "string option"
  leftUnresolvedConflicts :: "bool option"
  verbose :: "bool option"
  configMergeResults :: "ConfigMergeResult list option"
  workspaceDepsUpdates :: "(string \<times> string \<times> string) list option"

definition applyVersionReport :: "'id env \<Rightarrow> 'id ApplyVersionResult list \<Rightarrow> bool \<Rightarrow> bool \<Rightarrow> string" where
  "applyVersionReport e comps addName showVersion =
     js_join (nl @ nl)
       (map (\<lambda>c.
          (let name = (if showVersion then idToString e (av_id c)
                       else idToStringWithoutVersion e (av_id c));
               files = js_join nl
                 (map (\<lambda>(file, status).
                    (if addName then tab else []) @ status @ '' '' @ chalk e Bold file @ '' ''
                    @ (if status = FileStatus_manual e
                       then chalk e White (''automatic merge failed. please fix conflicts manually and then run ''
                              @ dq @ ''bit install'' @ dq @ '' and '' @ dq @ ''bit compile'' @ dq)
                       else []))
                  (filesStatus c))
           in (if addName then name else []) @ nl @ chalk e Cyan files))
        comps)"

definition conflictSummaryReport :: "'id env \<Rightarrow> 'id ApplyVersionResult list \<Rightarrow> string" where
  "conflictSummaryReport e comps =
     js_join nl
       (compact
          (map (\<lambda>c.
             (let name = idToStringWithoutVersion e (av_id c);
                  files = compact
                    (map (\<lambda>(file, status).
                       if status = FileStatus_manual e
                       then Some (tab @ status @ '' '' @ chalk e Bold file)
                       else None)
                     (filesStatus c))
              in if files = [] then None
                 else Some (name @ nl @ chalk e Cyan (js_join nl files))))
           comps))"

definition getRemovedOutput :: "'id env \<Rightarrow> 'id list option \<Rightarrow> string" where
  "getRemovedOutput e removed =
     (case removed of
        None \<Rightarrow> []
      | Some rs \<Rightarrow>
          if rs = [] then []
          else nl @ nl
               @ chalk e Underline (''the following '' @ toString_nat (length rs)
                                    @ '' component(s) have been removed'')
               @ nl @ js_join nl (map (idToString e) rs) @ nl @ nl)"

definition getSuccessOutput :: "'id env \<Rightarrow> 'id ApplyVersionResults \<Rightarrow> string" where
  "getSuccessOutput e r =
     (case components r of
        None \<Rightarrow> []
      | Some cs \<Rightarrow>
          if cs = [] then []
          else chalk e Underline
                 (''successfully merged components''
                  @ (if truthy_opt truthy_str (r_version r)
                     then ''from version '' @ chalk e Bold (the (r_version r)) else [])
                  @ nl)
               @ chalk e Green (applyVersionReport e cs True False))"

definition getConflictSummary :: "'id env \<Rightarrow> 'id ApplyVersionResults \<Rightarrow> string" where
  "getConflictSummary e r =
     (case components r of
        None \<Rightarrow> []
      | Some cs \<Rightarrow>
          if cs = [] \<or> \<not> truthy_opt truthy_bool (leftUnresolvedConflicts r) then []
          else chalk e Underline (nl @ nl @ ''files with conflicts summary'' @ nl)
               @ conflictSummaryReport e cs
               @ chalk e Yellow
                   (nl @ nl @ ''the merge process wasn'' @ sq
                    @ ''t completed due to the conflicts above. fix them manually and then run ''
                    @ dq @ ''bit install'' @ dq @ ''.'' @ nl
                    @ ''once ready, snap/tag the components to complete the merge.''))"

definition getConfigMergeConflictSummary :: "'id env \<Rightarrow> 'id ApplyVersionResults \<Rightarrow> string" where
  "getConfigMergeConflictSummary e r =
     (let configMergeWithConflicts =
            (case configMergeResults r of None \<Rightarrow> [] | Some cs \<Rightarrow> filter hasConflicts cs)
      in if configMergeWithConflicts = [] then []
         else chalk e Underline (nl @ nl @ ''components with config-merge conflicts'' @ nl)
              @ js_join nl (map compIdStr configMergeWithConflicts)
              @ chalk e Yellow
                  (nl @ ''conflicts were found while trying to merge the config. fix them manually by editing the ''
                   @ MergeConfigFilename e @ '' file in the workspace root.'' @ nl
                   @ ''once ready, snap/tag the components to complete the merge.''))"

definition snapsOutputComponents :: "'id env \<Rightarrow> 'id MergeSnapResults \<Rightarrow> string" where
  "snapsOutputComponents e m =
     js_join nl
       (map (\<lambda>c.
          (let autoTag = filter (\<lambda>r. searchWithoutScopeAndVersion e (triggeredBy r) c)
                           (autoSnappedResults m)
           in ''     > '' @ idToString e c
              @ (if autoTag \<noteq> []
                 then nl @ ''       '' @ AUTO_SNAPPED_MSG e @ '': ''
                      @ js_join '', '' (map (\<lambda>a. idToString e (component a)) autoTag)
                 else [])))
        (snappedComponents m))"

definition getSnapsOutput :: "'id env \<Rightarrow> 'id ApplyVersionResults \<Rightarrow> string" where
  "getSnapsOutput e r =
     (case mergeSnapError r of
        Some msg \<Rightarrow>
          nl @ chalk e Bold ''snapping the merged components had failed with the following error, please fix the issues and snap manually''
          @ nl @ msg @ nl
      | None \<Rightarrow>
          (case mergeSnapResults r of
             None \<Rightarrow> []
           | Some m \<Rightarrow>
               nl @ chalk e Underline ''merge-snapped components'' @ nl
               @ ''(components that snapped as a result of the merge)'' @ nl
               @ snapsOutputComponents e m @ nl))"

definition getWorkspaceDepsOutput :: "'id env \<Rightarrow> 'id ApplyVersionResults \<Rightarrow> string" where
  "getWorkspaceDepsOutput e r =
     (case workspaceDepsUpdates r of
        None \<Rightarrow> []
      | Some ups \<Rightarrow>
          nl @ chalk e Underline (nl @ ''workspace.jsonc has been updated with the following dependencies'')
          @ nl
          @ js_join nl (map (\<lambda>(pkgName, from, to). ''  '' @ pkgName @ '': '' @ from @ '' => '' @ to) ups)
          @ nl @ nl)"

text \<open>
  The closure \<open>getFailureOutput\<close> (lines 196-211). \<open>failureLine\<close> is the callback of
  its \<open>map\<close>: \<open>null\<close> for a component that is unchanged legitimately when the output
  is not verbose, its line otherwise.
\<close>

definition failureLine :: "'id env \<Rightarrow> bool \<Rightarrow> 'id FailedComponents \<Rightarrow> string option" where
  "failureLine e verb f =
     (if \<not> verb \<and> unchangedLegitimately f then None
      else Some (chalk e Bold (idToString e (fc_id f)) @ '' - ''
                 @ chalk e (if unchangedLegitimately f then White else Red) (failureMessage f)))"

definition getFailureOutput :: "'id env \<Rightarrow> 'id ApplyVersionResults \<Rightarrow> string" where
  "getFailureOutput e r =
     (case failedComponents r of
        None \<Rightarrow> []
      | Some fs \<Rightarrow>
          if fs = [] then []
          else (let body = js_join nl
                             (compact (map (failureLine e (truthy_opt truthy_bool (verbose r))) fs))
                in if body = [] then
                     chalk e Bold (nl @ ''the merge has been skipped on '' @ toString_nat (length fs)
                                   @ '' component(s) legitimately'')
                     @ nl @ ''(use --verbose to list them next time)''
                   else nl @ chalk e Underline (nl @ ''the merge has been skipped on the following component(s)'')
                        @ nl @ body @ nl @ nl))"

text \<open>The closure \<open>getSummary\<close> (lines 213-229), and the numbers it prints.\<close>

definition totalMerged :: "'id ApplyVersionResults \<Rightarrow> nat" where
  "totalMerged r = (case components r of None \<Rightarrow> 0 | Some cs \<Rightarrow> length cs)"

definition totalUnchanged :: "'id ApplyVersionResults \<Rightarrow> nat" where
  "totalUnchanged r =
     (case failedComponents r of
        None \<Rightarrow> 0
      | Some fs \<Rightarrow> length (filter (\<lambda>f. unchangedLegitimately f) fs))"

definition totalFailed :: "'id ApplyVersionResults \<Rightarrow> nat" where
  "totalFailed r =
     (case failedComponents r of
        None \<Rightarrow> 0
      | Some fs \<Rightarrow> length (filter (\<lambda>f. \<not> unchangedLegitimately f) fs))"

definition totalSnapped :: "'id ApplyVersionResults \<Rightarrow> nat" where
  "totalSnapped r =
     (case mergeSnapResults r of
        None \<Rightarrow> 0
      | Some m \<Rightarrow> length (snappedComponents m) + length (autoSnappedResults m))"

definition getSummary :: "'id env \<Rightarrow> 'id ApplyVersionResults \<Rightarrow> string" where
  "getSummary e r =
     nl @ nl @ chalk e BoldUnderline ''Merge Summary''
     @ nl @ ''Total Merged: '' @ chalk e Bold (toString_nat (totalMerged r))
     @ nl @ ''Total Unchanged: '' @ chalk e Bold (toString_nat (totalUnchanged r))
     @ nl @ ''Total Failed: '' @ chalk e Bold (toString_nat (totalFailed r))
     @ nl @ ''Total Snapped: '' @ chalk e Bold (toString_nat (totalSnapped r))
     @ nl @ ''Total Removed: ''
     @ chalk e Bold (case removedComponents r of None \<Rightarrow> ''0'' | Some rs \<Rightarrow> toString_nat (length rs))"

definition mergeReport :: "'id env \<Rightarrow> 'id ApplyVersionResults \<Rightarrow> string" where
  "mergeReport e r =
     getSuccessOutput e r
     @ getFailureOutput e r
     @ getRemovedOutput e (removedComponents r)
     @ getSnapsOutput e r
     @ getWorkspaceDepsOutput e r
     @ getConfigMergeConflictSummary e r
     @ getConflictSummary e r
     @ getSummary e r"

text \<open>The options of \<open>MergeCmd.report\<close> and the arguments it passes to the merge engine.\<close>

record merge_options =
  mo_ours :: bool
  mo_theirs :: bool
  mo_manual :: bool
  mo_abort :: bool
  mo_resolve :: bool
  mo_build :: bool
  mo_noSnap :: bool
  mo_verbose :: bool
  mo_message :: "string option"
  mo_skipDependencyInstallation :: bool

record 'ms merge_args =
  ma_ids :: "string list"
  ma_mergeStrategy :: 'ms
  ma_abort :: bool
  ma_resolve :: bool
  ma_noSnap :: bool
  ma_message :: "string option"
  ma_build :: bool
  ma_skipDependencyInstallation :: bool

text \<open>
  \<open>MergeCmd.report\<close> (lines 42-109). \<open>getMergeStrategy\<close> and the merge engine
  \<open>this.merging.merge\<close> are parameters; the engine takes its arguments and the state
  of the store and gives back the new state with the error it throws or its result.
  The command hands to \<open>mergeReport\<close> six fields only, \<open>verbose\<close> from its own
  options.
\<close>

definition MergeCmd_report ::
  "'id env \<Rightarrow> (bool \<Rightarrow> bool \<Rightarrow> bool \<Rightarrow> error + 'ms)
     \<Rightarrow> ('ms merge_args \<Rightarrow> 'st \<Rightarrow> (error + 'id ApplyVersionResults) \<times> 'st)
     \<Rightarrow> string list \<Rightarrow> merge_options \<Rightarrow> 'st \<Rightarrow> (error + string) \<times> 'st" where
  "MergeCmd_report e getMergeStrategy merging_merge ids opts st =
     (let build = (if isFeatureEnabled_BUILD_ON_CI e then mo_build opts else True)
      in case getMergeStrategy (mo_ours opts) (mo_theirs opts) (mo_manual opts) of
           Inl err \<Rightarrow> (Inl err, st)
         | Inr mergeStrategy \<Rightarrow>
             if mo_abort opts \<and> mo_resolve opts then
               (Inl (BitError (''unable to use '' @ dq @ ''abort'' @ dq @ '' and '' @ dq
                               @ ''resolve'' @ dq @ '' flags together'')), st)
             else if mo_noSnap opts \<and> truthy_opt truthy_str (mo_message opts) then
               (Inl (BitError (''unable to use '' @ dq @ ''noSnap'' @ dq @ '' and '' @ dq
                               @ ''message'' @ dq @ '' flags together'')), st)
             else
               (case merging_merge
                       \<lparr> ma_ids = ids, ma_mergeStrategy = mergeStrategy,
                         ma_abort = mo_abort opts, ma_resolve = mo_resolve opts,
                         ma_noSnap = mo_noSnap opts, ma_message = mo_message opts,
                         ma_build = build,
                         ma_skipDependencyInstallation = mo_skipDependencyInstallation opts \<rparr>
                       st of
                  (Inl err, st') \<Rightarrow> (Inl err, st')
                | (Inr r, st') \<Rightarrow>
                    (case resolvedComponents r of
                       Some rcs \<Rightarrow>
                         (Inr (chalk e Underline (''successfully resolved component(s)'' @ nl)
                               @ chalk e Green (js_join nl (map (idToStringWithoutVersion e) rcs))), st')
                     | None \<Rightarrow>
                         (case abortedComponents r of
                            Some acs \<Rightarrow>
                              (Inr (chalk e Underline
                                      (''successfully aborted the merge of the following component(s)'' @ nl)
                                    @ chalk e Green (js_join nl (map (idToStringWithoutVersion e) acs))), st')
                          | None \<Rightarrow>
                              (Inr (mergeReport e
                                      \<lparr> components = components r,
                                        failedComponents = failedComponents r,
                                        removedComponents = None,
                                        r_version = r_version r,
                                        resolvedComponents = None,
                                        abortedComponents = None,
                                        mergeSnapResults = mergeSnapResults r,
                                        mergeSnapError = mergeSnapError r,
                                        leftUnresolvedConflicts = None,
                                        verbose = Some (mo_verbose opts),
                                        configMergeResults = None,
                                        workspaceDepsUpdates = None \<rparr>), st')))))"

section \<open>The collaborators that are not among the sources\<close>


datatype MergeStrategy = Ours | Theirs | Manual

text \<open>
  Modelled from the spec: \<open>getMergeStrategy\<close> is imported from the merge-version module,
  which is not among the sources. The spec (4.3) says: \<open>strategy\<close> is one of \<open>ours\<close>,
  \<open>theirs\<close>, \<open>manual\<close>, mutually exclusive, and \<open>manual\<close> is the default when no side
  is specified. The spec gives no text for the error; the one here is a placeholder.
\<close>

definition getMergeStrategy :: "bool \<Rightarrow> bool \<Rightarrow> bool \<Rightarrow> error + MergeStrategy" where
  "getMergeStrategy ours theirs manual =
     (if (ours \<and> theirs) \<or> (ours \<and> manual) \<or> (theirs \<and> manual)
      then Inl (OtherError ''ours, theirs and manual are mutually exclusive'')
      else if ours then Inr Ours
      else if theirs then Inr Theirs
      else Inr Manual)"

text \<open>
  What the merge of one component comes to, in the words of the spec (4.3, failure
  semantics): it is merged, or it had nothing to merge, or it failed (target version
  not found, component not under pending-merge).
\<close>

datatype 'id component_outcome =
    Merged "'id ApplyVersionResult"
  | NothingToMerge 'id string
  | MergeFailure 'id string

text \<open>
  Modelled from the spec: the merge engine \<open>this.merging.merge\<close> lives in
  \<open>merging.main.runtime\<close>, which is not among the sources. The spec (4.3 and 7) says that
  per-component failures are collected into \<open>failedComponents\<close> with a
  \<open>failureMessage\<close> and an \<open>unchangedLegitimately\<close> flag (true when the component simply
  had nothing to merge) rather than aborting the whole batch, and that successfully merged
  components are returned alongside failures in the same result. The merge of one
  component (\<open>mergeOne\<close>: three-way comparison, strategy, snap) is a parameter that
  reads and writes the store. \<open>mergeComponents\<close> is the loop over the batch, with the
  two arrays it fills.
\<close>

fun mergeComponents ::
  "(string \<Rightarrow> 'st \<Rightarrow> 'id component_outcome \<times> 'st) \<Rightarrow> string list
     \<Rightarrow> 'id ApplyVersionResult list \<Rightarrow> 'id FailedComponents list \<Rightarrow> 'st
     \<Rightarrow> ('id ApplyVersionResult list \<times> 'id FailedComponents list) \<times> 'st" where
  "mergeComponents mergeOne [] merged failed st = ((merged, failed), st)"
| "mergeComponents mergeOne (i # rest) merged failed st =
     (case mergeOne i st of
        (Merged c, st') \<Rightarrow> mergeComponents mergeOne rest (merged @ [c]) failed st'
      | (NothingToMerge cid msg, st') \<Rightarrow>
          mergeComponents mergeOne rest merged
            (failed @ [\<lparr> fc_id = cid, failureMessage = msg, unchangedLegitimately = True \<rparr>]) st'
      | (MergeFailure cid msg, st') \<Rightarrow>
          mergeComponents mergeOne rest merged
            (failed @ [\<lparr> fc_id = cid, failureMessage = msg, unchangedLegitimately = False \<rparr>]) st')"

definition merging_merge_spec ::
  "(string \<Rightarrow> 'st \<Rightarrow> 'id component_outcome \<times> 'st) \<Rightarrow> 'ms merge_args \<Rightarrow> 'st
     \<Rightarrow> (error + 'id ApplyVersionResults) \<times> 'st" where
  "merging_merge_spec mergeOne args st =
     (case mergeComponents mergeOne (ma_ids args) [] [] st of
        ((merged, failed), st') \<Rightarrow>
          (Inr \<lparr> components = Some merged, failedComponents = Some failed,
                 removedComponents = None, r_version = None, resolvedComponents = None,
                 abortedComponents = None, mergeSnapResults = None, mergeSnapError = None,
                 leftUnresolvedConflicts = None, verbose = None, configMergeResults = None,
                 workspaceDepsUpdates = None \<rparr>, st'))"

text \<open>
  The outcomes of the components of a batch, in order, each at the state the
  components before it left; and what the two arrays of the result hold of them.
\<close>

fun outcomes ::
  "(string \<Rightarrow> 'st \<Rightarrow> 'id component_outcome \<times> 'st) \<Rightarrow> string list \<Rightarrow> 'st
     \<Rightarrow> 'id component_outcome list" where
  "outcomes mergeOne [] st = []"
| "outcomes mergeOne (i # rest) st =
     (case mergeOne i st of (out, st') \<Rightarrow> out # outcomes mergeOne rest st')"

fun mergedOf :: "'id component_outcome list \<Rightarrow> 'id ApplyVersionResult list" where
  "mergedOf [] = []"
| "mergedOf (Merged c # outs) = c # mergedOf outs"
| "mergedOf (out # outs) = mergedOf outs"

fun failedOf :: "'id component_outcome list \<Rightarrow> 'id FailedComponents list" where
  "failedOf [] = []"
| "failedOf (Merged c # outs) = failedOf outs"
| "failedOf (NothingToMerge cid msg # outs) =
     \<lparr> fc_id = cid, failureMessage = msg, unchangedLegitimately = True \<rparr> # failedOf outs"
| "failedOf (MergeFailure cid msg # outs) =
     \<lparr> fc_id = cid, failureMessage = msg, unchangedLegitimately = False \<rparr> # failedOf outs"

text \<open>A component of the workspace, as the tag engine sees it.\<close>

record 'id workspace_component =
  comp_id :: 'id
  hasChanges :: bool

text \<open>
  Modelled from the spec: the tag engine \<open>this.snapping.tag\<close> lives in
  \<open>snapping.main.runtime\<close>, which is not among the sources. The spec (4.2) says: step 1
  resolves the requested ids (empty meaning all) to the components with pending changes,
  or to all of them if \<open>unmodified\<close>; components that had no actual change and
  \<open>unmodified\<close> not set are excluded with no error, and this is the \<open>NOTHING_TO_TAG\<close>
  outcome. Steps 2 to 6 (auto-tag, versions, build, persistence) are the parameter
  \<open>tagCandidates\<close>; matching an id against the patterns is the parameter \<open>matches\<close>.
\<close>

definition candidates ::
  "(string list \<Rightarrow> 'id \<Rightarrow> bool) \<Rightarrow> 'id workspace_component list \<Rightarrow> tag_params
     \<Rightarrow> 'id workspace_component list" where
  "candidates matches workspace params =
     filter (\<lambda>c. (p_ids params = [] \<or> matches (p_ids params) (comp_id c))
                 \<and> (hasChanges c \<or> p_unmodified params))
       workspace"

definition snapping_tag_spec ::
  "(string list \<Rightarrow> 'id \<Rightarrow> bool) \<Rightarrow> 'id workspace_component list
     \<Rightarrow> ('id workspace_component list \<Rightarrow> tag_params \<Rightarrow> 'st \<Rightarrow> (error + 'id TagResults) \<times> 'st)
     \<Rightarrow> tag_params \<Rightarrow> 'st \<Rightarrow> (error + 'id TagResults option) \<times> 'st" where
  "snapping_tag_spec matches workspace tagCandidates params st =
     (if candidates matches workspace params = [] then (Inr None, st)
      else (case tagCandidates (candidates matches workspace params) params st of
              (Inl err, st') \<Rightarrow> (Inl err, st')
            | (Inr results, st') \<Rightarrow> (Inr (Some results), st')))"

section \<open>Concrete instances\<close>

text \<open>
  An environment to run the commands in: a \<open>chalk\<close> that adds no styling, ids that
  are their own text (the version follows an \<open>@\<close>), and searches by equality.
\<close>

definition plain_env :: "string env" where
  "plain_env =
     \<lparr> chalk = (\<lambda>style s. s),
       idToString = (\<lambda>i. i),
       idToStringWithoutVersion = takeWhile (\<lambda>c. c \<noteq> CHR ''@''),
       searchWithoutVersion = (\<lambda>xs i. i \<in> set xs),
       searchWithoutScopeAndVersion = (\<lambda>xs i. i \<in> set xs),
       NOTHING_TO_TAG_MSG = ''nothing to tag'',
       AUTO_TAGGED_MSG = ''auto-tagged dependents'',
       AUTO_SNAPPED_MSG = ''auto-snapped dependents'',
       MergeConfigFilename = ''merge-conflict'',
       FileStatus_manual = ''CONFLICT'',
       isFeatureEnabled_BUILD_ON_CI = False \<rparr>"

text \<open>The options of \<open>bit merge\<close> and of \<open>bit tag\<close> with no flag given.\<close>

definition default_merge_options :: merge_options where
  "default_merge_options =
     \<lparr> mo_ours = False, mo_theirs = False, mo_manual = False, mo_abort = False,
       mo_resolve = False, mo_build = False, mo_noSnap = False, mo_verbose = False,
       mo_message = None, mo_skipDependencyInstallation = False \<rparr>"

definition default_tag_options :: tag_options where
  "default_tag_options =
     \<lparr> opt_message = [], opt_ver = None, opt_all = JBool False, opt_editor = [],
       opt_snapped = False, opt_unmerged = False, opt_patch = None, opt_minor = None,
       opt_major = None, opt_preRelease = None, opt_increment = None,
       opt_prereleaseId = None, opt_force = False,
       opt_ignoreUnresolvedDependencies = None, opt_ignoreIssues = None,
       opt_ignoreNewestVersion = False, opt_skipTests = False, opt_skipAutoTag = False,
       opt_scope = None, opt_unmodified = False, opt_build = None, opt_soft = False,
       opt_persist = False, opt_disableDeployPipeline = False,
       opt_disableTagPipeline = False, opt_forceDeploy = False, opt_incrementBy = 1 \<rparr>"

text \<open>
  Engines whose state is the list of the calls made to them: every call is recorded,
  so a final state equal to the initial one means that the engine was not called.
\<close>

definition recording_merge :: "'ms merge_args \<Rightarrow> 'ms merge_args list
    \<Rightarrow> (error + string ApplyVersionResults) \<times> 'ms merge_args list" where
  "recording_merge args calls =
     (Inr \<lparr> components = Some [], failedComponents = Some [], removedComponents = None,
            r_version = None, resolvedComponents = None, abortedComponents = None,
            mergeSnapResults = None, mergeSnapError = None, leftUnresolvedConflicts = None,
            verbose = None, configMergeResults = None, workspaceDepsUpdates = None \<rparr>,
      calls @ [args])"

definition recording_tag :: "tag_params \<Rightarrow> tag_params list
    \<Rightarrow> (error + string TagResults option) \<times> tag_params list" where
  "recording_tag params calls = (Inr None, calls @ [params])"

text \<open>A \<open>getMergeStrategy\<close> that accepts every combination of flags.\<close>

definition any_strategy :: "bool \<Rightarrow> bool \<Rightarrow> bool \<Rightarrow> error + (bool \<times> bool \<times> bool)" where
  "any_strategy ours theirs manual = Inr (ours, theirs, manual)"

text \<open>
  A merge of one component for a workspace of three: \<open>comp/a\<close> merges, \<open>comp/b\<close> has
  nothing to merge, any other id is not found. The state counts the components
  processed.
\<close>

definition sample_mergeOne :: "string \<Rightarrow> nat \<Rightarrow> string component_outcome \<times> nat" where
  "sample_mergeOne i n =
     (if i = ''comp/a'' then
        (Merged \<lparr> av_id = ''comp/a@0.0.2'', filesStatus = [(''index.ts'', ''updated'')] \<rparr>, Suc n)
      else if i = ''comp/b'' then
        (NothingToMerge ''comp/b@0.0.1'' ''component is already up to date'', Suc n)
      else (MergeFailure i ''component was not found'', Suc n))"

definition sample_failed :: "string FailedComponents list" where
  "sample_failed =
     [\<lparr> fc_id = ''comp/b@0.0.1'', failureMessage = ''component is already up to date'',
         unchangedLegitimately = True \<rparr>,
      \<lparr> fc_id = ''comp/missing'', failureMessage = ''component was not found'',
         unchangedLegitimately = False \<rparr>]"

definition sample_results :: "string FailedComponents list \<Rightarrow> bool \<Rightarrow> string ApplyVersionResults" where
  "sample_results failed verb =
     \<lparr> components = None, failedComponents = Some failed, removedComponents = None,
       r_version = None, resolvedComponents = None, abortedComponents = None,
       mergeSnapResults = None, mergeSnapError = None, leftUnresolvedConflicts = None,
       verbose = Some verb, configMergeResults = None, workspaceDepsUpdates = None \<rparr>"

text \<open>
  A workspace of two components without changes, patterns that match by equality, and a
  tagging of the candidates that records its call.
\<close>

definition sample_workspace :: "string workspace_component list" where
  "sample_workspace =
     [\<lparr> comp_id = ''comp/a'', hasChanges = False \<rparr>, \<lparr> comp_id = ''comp/b'', hasChanges = False \<rparr>]"

definition sample_matches :: "string list \<Rightarrow> string \<Rightarrow> bool" where
  "sample_matches patterns i = (i \<in> set patterns)"

definition sample_tagCandidates ::
  "string workspace_component list \<Rightarrow> tag_params \<Rightarrow> tag_params list
     \<Rightarrow> (error + string TagResults) \<times> tag_params list" where
  "sample_tagCandidates cands params calls =
     (Inr \<lparr> taggedComponents = map comp_id cands, autoTaggedResults = [], warnings = [],
            newComponents = [], isSoftTag = p_soft params, publishedPackages = None \<rparr>,
      calls @ [params])"

section \<open>Properties\<close>

subsection \<open>Strings\<close>

lemma js_join_nonempty:
  assumes "xs \<noteq> []" and "\<forall>x \<in> set xs. x \<noteq> []"
  shows "js_join sep xs \<noteq> []"
  using assms by (induction sep xs rule: js_join.induct) auto

lemma toString_nat_digits:
  "toString_nat 0 = ''0''" "toString_nat 1 = ''1''" "toString_nat 2 = ''2''" "toString_nat 3 = ''3''"
  by code_simp+

lemma toString_nat_Suc_0: "toString_nat (Suc 0) = ''1''"
  using toString_nat_digits(2) by simp

subsection \<open>The tag command before the engine\<close>

lemma tagParams_InrD:
  assumes "tagParams patterns opts = (ws, Inr p)"
  shows "ws = deprecationWarnings opts"
    and "getReleaseType opts = Inr (p_releaseType p)"
    and "length (releaseFlags opts) \<le> 1"
    and "p_version p = resolvedVer opts"
    and "p_unmodified p = resolvedUnmodified patterns opts"
    and "p_preReleaseId p = getPreReleaseId opts"
    and "p_ids p = patterns"
  using assms
  by (auto simp: tagParams_def split: if_splits sum.splits)

lemma tagParams_Inl_BitError:
  assumes "tagParams patterns opts = (ws, Inl err)"
  shows "\<exists>msg. err = BitError msg"
  using assms
  by (auto simp: tagParams_def getReleaseType_def split: if_splits sum.splits)

lemma TagCmd_report_preflight_error:
  assumes "tagParams patterns opts = (ws, Inl err)"
  shows "TagCmd_report e engine patterns opts st = (Inl err, ws, st)"
  using assms by (simp add: TagCmd_report_def)

lemma TagCmd_report_engine_call:
  assumes "tagParams patterns opts = (ws, Inr p)"
  shows "TagCmd_report e engine patterns opts st =
           (case engine p st of
              (Inl err, st') \<Rightarrow> (Inl err, ws, st')
            | (Inr None, st') \<Rightarrow> (Inr (chalk e Yellow (NOTHING_TO_TAG_MSG e)), ws, st')
            | (Inr (Some results), st') \<Rightarrow> (Inr (tagOutput e results), ws, st'))"
  using assms by (simp add: TagCmd_report_def)

lemma TagCmd_report_null_result:
  assumes "tagParams patterns opts = (ws, Inr p)" and "engine p st = (Inr None, st')"
  shows "TagCmd_report e engine patterns opts st = (Inr (chalk e Yellow (NOTHING_TO_TAG_MSG e)), ws, st')"
  using assms by (simp add: TagCmd_report_def)

lemma releaseFlags_le1:
  assumes "length (releaseFlags opts) \<le> 1"
  shows "\<not> (truthy_opt truthy_bool (opt_major opts) \<and> truthy_opt truthy_bool (opt_minor opts))"
    and "\<not> (truthy_opt truthy_bool (opt_major opts) \<and> truthy_opt truthy_bool (opt_patch opts))"
    and "\<not> (truthy_opt truthy_bool (opt_major opts) \<and> truthy_opt truthy (opt_preRelease opts))"
    and "\<not> (truthy_opt truthy_bool (opt_minor opts) \<and> truthy_opt truthy_bool (opt_patch opts))"
    and "\<not> (truthy_opt truthy_bool (opt_minor opts) \<and> truthy_opt truthy (opt_preRelease opts))"
    and "\<not> (truthy_opt truthy_bool (opt_patch opts) \<and> truthy_opt truthy (opt_preRelease opts))"
  using assms by (auto simp: releaseFlags_def split: if_splits)

lemma tagParams_releaseType_increment:
  assumes "tagParams patterns opts = (ws, Inr p)" and "truthy_opt truthy_str (opt_increment opts)"
  shows "Some (p_releaseType p) = opt_increment opts"
  using tagParams_InrD(2)[OF assms(1)] assms(2)
  by (cases "opt_increment opts") (auto simp: getReleaseType_def split: if_splits)

lemma tagParams_releaseType_sugar:
  assumes "tagParams patterns opts = (ws, Inr p)" and "\<not> truthy_opt truthy_str (opt_increment opts)"
  shows "truthy_opt truthy_bool (opt_major opts) \<Longrightarrow> p_releaseType p = ''major''"
    and "truthy_opt truthy_bool (opt_minor opts) \<Longrightarrow> p_releaseType p = ''minor''"
    and "truthy_opt truthy_bool (opt_patch opts) \<Longrightarrow> p_releaseType p = ''patch''"
    and "truthy_opt truthy (opt_preRelease opts) \<Longrightarrow> p_releaseType p = ''prerelease''"
    and "releaseFlags opts = [] \<Longrightarrow> p_releaseType p = ''patch''"
proof -
  note D = tagParams_InrD[OF assms(1)]
  note F = releaseFlags_le1[OF D(3)]
  have G: "getReleaseType opts =
      (if truthy_opt truthy_bool (opt_major opts) then Inr ''major''
      else if truthy_opt truthy_bool (opt_minor opts) then Inr ''minor''
      else if truthy_opt truthy_bool (opt_patch opts) then Inr ''patch''
      else if truthy_opt truthy (opt_preRelease opts) then Inr ''prerelease''
      else Inr DEFAULT_BIT_RELEASE_TYPE)"
    using assms(2) by (simp add: getReleaseType_def)
  show "truthy_opt truthy_bool (opt_major opts) \<Longrightarrow> p_releaseType p = ''major''"
    using D(2) G by simp
  show "truthy_opt truthy_bool (opt_minor opts) \<Longrightarrow> p_releaseType p = ''minor''"
    using D(2) G F(1) by (simp split: if_splits)
  show "truthy_opt truthy_bool (opt_patch opts) \<Longrightarrow> p_releaseType p = ''patch''"
    using D(2) G F(2,4) by (simp split: if_splits)
  show "truthy_opt truthy (opt_preRelease opts) \<Longrightarrow> p_releaseType p = ''prerelease''"
    using D(2) G F(3,5,6) by (simp split: if_splits)
  show "releaseFlags opts = [] \<Longrightarrow> p_releaseType p = ''patch''"
    using D(2) G by (simp add: releaseFlags_def DEFAULT_BIT_RELEASE_TYPE_def split: if_splits)
qed

lemma resolvedVer_cases:
  shows "opt_scope opts = Some (JStr s) \<Longrightarrow> s \<noteq> [] \<Longrightarrow> resolvedVer opts = Some s"
    and "opt_all opts = JStr s \<Longrightarrow> s \<noteq> [] \<Longrightarrow> \<not> (\<exists>s'. opt_scope opts = Some (JStr s') \<and> s' \<noteq> [])
           \<Longrightarrow> resolvedVer opts = Some s"
    and "\<not> (\<exists>s. opt_all opts = JStr s \<and> s \<noteq> []) \<Longrightarrow> \<not> (\<exists>s. opt_scope opts = Some (JStr s) \<and> s \<noteq> [])
           \<Longrightarrow> resolvedVer opts = opt_ver opts"
  by (auto simp: resolvedVer_def Let_def split: option.splits jsval.splits)

lemma resolvedUnmodified_cases:
  shows "truthy_opt truthy (opt_scope opts) \<Longrightarrow> resolvedUnmodified patterns opts"
    and "opt_force opts \<Longrightarrow> patterns \<noteq> [] \<Longrightarrow> resolvedUnmodified patterns opts"
    and "\<not> truthy_opt truthy (opt_scope opts) \<Longrightarrow> \<not> (opt_force opts \<and> patterns \<noteq> [])
           \<Longrightarrow> resolvedUnmodified patterns opts = opt_unmodified opts"
  by (auto simp: resolvedUnmodified_def Let_def)

subsection \<open>The failure listing of the merge report\<close>

lemma failureLine_nonempty: "failureLine e verb f = Some s \<Longrightarrow> s \<noteq> []"
  by (auto simp: failureLine_def split: if_splits)

lemma compact_failureLine_quiet:
  "compact (map (failureLine e False) fs) =
     map (\<lambda>f. chalk e Bold (idToString e (fc_id f)) @ '' - '' @ chalk e Red (failureMessage f))
       (filter (\<lambda>f. \<not> unchangedLegitimately f) fs)"
  by (induction fs) (auto simp: failureLine_def)

lemma compact_failureLine_verbose:
  "compact (map (failureLine e True) fs) =
     map (\<lambda>f. chalk e Bold (idToString e (fc_id f)) @ '' - ''
               @ chalk e (if unchangedLegitimately f then White else Red) (failureMessage f)) fs"
  by (induction fs) (auto simp: failureLine_def)

lemma getFailureOutput_quiet_some_failed:
  assumes "failedComponents r = Some fs" and "\<not> truthy_opt truthy_bool (verbose r)"
    and "\<exists>f \<in> set fs. \<not> unchangedLegitimately f"
  shows "getFailureOutput e r =
           nl @ chalk e Underline (nl @ ''the merge has been skipped on the following component(s)'')
           @ nl
           @ js_join nl
               (map (\<lambda>f. chalk e Bold (idToString e (fc_id f)) @ '' - '' @ chalk e Red (failureMessage f))
                  (filter (\<lambda>f. \<not> unchangedLegitimately f) fs))
           @ nl @ nl"
proof -
  let ?lines = "map (\<lambda>f. chalk e Bold (idToString e (fc_id f)) @ '' - '' @ chalk e Red (failureMessage f))
                  (filter (\<lambda>f. \<not> unchangedLegitimately f) fs)"
  from assms(3) have ne: "filter (\<lambda>f. \<not> unchangedLegitimately f) fs \<noteq> []"
    by (auto simp: filter_empty_conv)
  then have "?lines \<noteq> []" by simp
  moreover have "\<forall>x \<in> set ?lines. x \<noteq> []" by auto
  ultimately have body: "js_join nl ?lines \<noteq> []" by (rule js_join_nonempty)
  from assms(3) have "fs \<noteq> []" by auto
  with assms(1,2) body show ?thesis
    by (simp add: getFailureOutput_def compact_failureLine_quiet Let_def)
qed

lemma getFailureOutput_quiet_all_legit:
  assumes "failedComponents r = Some fs" and "fs \<noteq> []" and "\<not> truthy_opt truthy_bool (verbose r)"
    and "\<forall>f \<in> set fs. unchangedLegitimately f"
  shows "getFailureOutput e r =
           chalk e Bold (nl @ ''the merge has been skipped on '' @ toString_nat (length fs)
                         @ '' component(s) legitimately'')
           @ nl @ ''(use --verbose to list them next time)''"
proof -
  from assms(4) have "filter (\<lambda>f. \<not> unchangedLegitimately f) fs = []"
    by (auto simp: filter_empty_conv)
  with assms(1,2,3) show ?thesis
    by (simp add: getFailureOutput_def compact_failureLine_quiet Let_def)
qed

lemma getFailureOutput_verbose:
  assumes "failedComponents r = Some fs" and "fs \<noteq> []" and "truthy_opt truthy_bool (verbose r)"
  shows "getFailureOutput e r =
           nl @ chalk e Underline (nl @ ''the merge has been skipped on the following component(s)'')
           @ nl
           @ js_join nl
               (map (\<lambda>f. chalk e Bold (idToString e (fc_id f)) @ '' - ''
                         @ chalk e (if unchangedLegitimately f then White else Red) (failureMessage f)) fs)
           @ nl @ nl"
proof -
  let ?lines = "map (\<lambda>f. chalk e Bold (idToString e (fc_id f)) @ '' - ''
                         @ chalk e (if unchangedLegitimately f then White else Red) (failureMessage f)) fs"
  have "?lines \<noteq> []" using assms(2) by simp
  moreover have "\<forall>x \<in> set ?lines. x \<noteq> []" by auto
  ultimately have body: "js_join nl ?lines \<noteq> []" by (rule js_join_nonempty)
  with assms show ?thesis
    by (simp add: getFailureOutput_def compact_failureLine_verbose Let_def)
qed

lemma getSummary_verbose_irrelevant:
  "getSummary e (r\<lparr>verbose := v\<rparr>) = getSummary e r"
  by (simp add: getSummary_def totalMerged_def totalUnchanged_def totalFailed_def totalSnapped_def)

lemma getSummary_text:
  assumes "failedComponents r = Some fs"
  shows "getSummary e (r\<lparr>verbose := v\<rparr>) =
              nl @ nl @ chalk e BoldUnderline ''Merge Summary''
              @ nl @ ''Total Merged: ''
              @ chalk e Bold (toString_nat (case components r of None \<Rightarrow> 0 | Some cs \<Rightarrow> length cs))
              @ nl @ ''Total Unchanged: ''
              @ chalk e Bold (toString_nat (length (filter (\<lambda>f. unchangedLegitimately f) fs)))
              @ nl @ ''Total Failed: ''
              @ chalk e Bold (toString_nat (length (filter (\<lambda>f. \<not> unchangedLegitimately f) fs)))
              @ nl @ ''Total Snapped: ''
              @ chalk e Bold (toString_nat
                  (case mergeSnapResults r of
                     None \<Rightarrow> 0
                   | Some m \<Rightarrow> length (snappedComponents m) + length (autoSnappedResults m)))
              @ nl @ ''Total Removed: ''
              @ chalk e Bold (case removedComponents r of
                                None \<Rightarrow> ''0''
                              | Some rs \<Rightarrow> toString_nat (length rs))"
  using assms
  by (simp add: getSummary_def totalMerged_def totalUnchanged_def totalFailed_def totalSnapped_def)

lemma totals_partition:
  assumes "failedComponents r = Some fs"
  shows "totalUnchanged r + totalFailed r = length fs"
  using assms by (simp add: totalUnchanged_def totalFailed_def sum_length_filter_compl)

subsection \<open>The batch of the merge engine\<close>

lemma mergeComponents_outcomes:
  "fst (mergeComponents mergeOne ids merged failed st) =
     (merged @ mergedOf (outcomes mergeOne ids st), failed @ failedOf (outcomes mergeOne ids st))"
proof (induction ids arbitrary: merged failed st)
  case Nil
  then show ?case by simp
next
  case (Cons i rest)
  obtain out st' where step: "mergeOne i st = (out, st')" by (cases "mergeOne i st")
  show ?case
    by (cases out) (simp_all add: step Cons.IH)
qed

lemma length_outcomes: "length (outcomes mergeOne ids st) = length ids"
  by (induction ids arbitrary: st) (auto split: prod.splits)

lemma length_mergedOf_failedOf: "length (mergedOf outs) + length (failedOf outs) = length outs"
  by (induction outs rule: failedOf.induct) auto

lemma failedOf_complete:
  "out \<in> set outs \<Longrightarrow>
     (case out of
        Merged c \<Rightarrow> c \<in> set (mergedOf outs)
      | NothingToMerge cid msg \<Rightarrow>
          \<lparr> fc_id = cid, failureMessage = msg, unchangedLegitimately = True \<rparr> \<in> set (failedOf outs)
      | MergeFailure cid msg \<Rightarrow>
          \<lparr> fc_id = cid, failureMessage = msg, unchangedLegitimately = False \<rparr> \<in> set (failedOf outs))"
  by (induction outs rule: failedOf.induct) (auto split: component_outcome.splits)

lemma failedOf_sound:
  "f \<in> set (failedOf outs) \<Longrightarrow>
     (if unchangedLegitimately f then NothingToMerge (fc_id f) (failureMessage f)
      else MergeFailure (fc_id f) (failureMessage f)) \<in> set outs"
  by (induction outs rule: failedOf.induct) auto

lemma merging_merge_spec_result:
  "fst (merging_merge_spec mergeOne args st) =
     Inr \<lparr> components = Some (mergedOf (outcomes mergeOne (ma_ids args) st)),
           failedComponents = Some (failedOf (outcomes mergeOne (ma_ids args) st)),
           removedComponents = None, r_version = None, resolvedComponents = None,
           abortedComponents = None, mergeSnapResults = None, mergeSnapError = None,
           leftUnresolvedConflicts = None, verbose = None, configMergeResults = None,
           workspaceDepsUpdates = None \<rparr>"
proof -
  obtain merged failed st' where
    run: "mergeComponents mergeOne (ma_ids args) [] [] st = ((merged, failed), st')"
    by (metis surj_pair)
  from mergeComponents_outcomes[of mergeOne "ma_ids args" "[]" "[]" st] run
  have "merged = mergedOf (outcomes mergeOne (ma_ids args) st)"
    and "failed = failedOf (outcomes mergeOne (ma_ids args) st)"
    by simp_all
  with run show ?thesis by (simp add: merging_merge_spec_def)
qed

lemma MergeCmd_report_engine_call:
  assumes "gms (mo_ours opts) (mo_theirs opts) (mo_manual opts) = Inr strategy"
    and "\<not> (mo_abort opts \<and> mo_resolve opts)"
    and "\<not> (mo_noSnap opts \<and> truthy_opt truthy_str (mo_message opts))"
    and "engine \<lparr> ma_ids = ids, ma_mergeStrategy = strategy,
                  ma_abort = mo_abort opts, ma_resolve = mo_resolve opts,
                  ma_noSnap = mo_noSnap opts, ma_message = mo_message opts,
                  ma_build = (if isFeatureEnabled_BUILD_ON_CI e then mo_build opts else True),
                  ma_skipDependencyInstallation = mo_skipDependencyInstallation opts \<rparr> st
         = (Inr r, st')"
    and "resolvedComponents r = None" and "abortedComponents r = None"
  shows "MergeCmd_report e gms engine ids opts st =
           (Inr (mergeReport e
                   \<lparr> components = components r, failedComponents = failedComponents r,
                     removedComponents = None, r_version = r_version r,
                     resolvedComponents = None, abortedComponents = None,
                     mergeSnapResults = mergeSnapResults r, mergeSnapError = mergeSnapError r,
                     leftUnresolvedConflicts = None, verbose = Some (mo_verbose opts),
                     configMergeResults = None, workspaceDepsUpdates = None \<rparr>), st')"
  using assms by (auto simp: MergeCmd_report_def Let_def)

subsection \<open>The claims\<close>

text \<open>
  C1. In a batch merge the failure of a component is not thrown and does not end the
  batch. With the merge engine as the spec describes it, and flags that pass the checks
  of lines 69-71, \<open>MergeCmd.report\<close> returns a text, the \<open>mergeReport\<close> of a result
  that holds the merged components and the failed ones side by side. Every component of
  the batch is in one of the two lists. A component that had nothing to merge is in
  \<open>failedComponents\<close> with its message and \<open>unchangedLegitimately\<close> true, a component
  that failed is there with its message and the flag false, and \<open>failedComponents\<close>
  holds nothing else.
\<close>

theorem merge_batch_collects_component_failures:
  assumes "gms (mo_ours opts) (mo_theirs opts) (mo_manual opts) = Inr strategy"
    and "\<not> (mo_abort opts \<and> mo_resolve opts)"
    and "\<not> (mo_noSnap opts \<and> truthy_opt truthy_str (mo_message opts))"
  shows "fst (MergeCmd_report e gms (merging_merge_spec mergeOne) ids opts st) =
           Inr (mergeReport e
                  \<lparr> components = Some (mergedOf (outcomes mergeOne ids st)),
                    failedComponents = Some (failedOf (outcomes mergeOne ids st)),
                    removedComponents = None, r_version = None,
                    resolvedComponents = None, abortedComponents = None,
                    mergeSnapResults = None, mergeSnapError = None,
                    leftUnresolvedConflicts = None, verbose = Some (mo_verbose opts),
                    configMergeResults = None, workspaceDepsUpdates = None \<rparr>)
       \<and> length (mergedOf (outcomes mergeOne ids st)) + length (failedOf (outcomes mergeOne ids st))
           = length ids
       \<and> (\<forall>out \<in> set (outcomes mergeOne ids st).
            case out of
              Merged c \<Rightarrow> c \<in> set (mergedOf (outcomes mergeOne ids st))
            | NothingToMerge cid msg \<Rightarrow>
                \<lparr> fc_id = cid, failureMessage = msg, unchangedLegitimately = True \<rparr>
                  \<in> set (failedOf (outcomes mergeOne ids st))
            | MergeFailure cid msg \<Rightarrow>
                \<lparr> fc_id = cid, failureMessage = msg, unchangedLegitimately = False \<rparr>
                  \<in> set (failedOf (outcomes mergeOne ids st)))
       \<and> (\<forall>f \<in> set (failedOf (outcomes mergeOne ids st)).
            (if unchangedLegitimately f then NothingToMerge (fc_id f) (failureMessage f)
             else MergeFailure (fc_id f) (failureMessage f)) \<in> set (outcomes mergeOne ids st))"
proof (intro conjI ballI)
  let ?args = "\<lparr> ma_ids = ids, ma_mergeStrategy = strategy,
                  ma_abort = mo_abort opts, ma_resolve = mo_resolve opts,
                  ma_noSnap = mo_noSnap opts, ma_message = mo_message opts,
                  ma_build = (if isFeatureEnabled_BUILD_ON_CI e then mo_build opts else True),
                  ma_skipDependencyInstallation = mo_skipDependencyInstallation opts \<rparr>"
  let ?r = "\<lparr> components = Some (mergedOf (outcomes mergeOne ids st)),
           failedComponents = Some (failedOf (outcomes mergeOne ids st)),
           removedComponents = None, r_version = None, resolvedComponents = None,
           abortedComponents = None, mergeSnapResults = None, mergeSnapError = None,
           leftUnresolvedConflicts = None, verbose = None, configMergeResults = None,
           workspaceDepsUpdates = None \<rparr>"
  obtain st' where call: "merging_merge_spec mergeOne ?args st = (Inr ?r, st')"
    using merging_merge_spec_result[of mergeOne ?args st]
    by (cases "merging_merge_spec mergeOne ?args st") simp
  show "fst (MergeCmd_report e gms (merging_merge_spec mergeOne) ids opts st) =
           Inr (mergeReport e
                  \<lparr> components = Some (mergedOf (outcomes mergeOne ids st)),
                    failedComponents = Some (failedOf (outcomes mergeOne ids st)),
                    removedComponents = None, r_version = None,
                    resolvedComponents = None, abortedComponents = None,
                    mergeSnapResults = None, mergeSnapError = None,
                    leftUnresolvedConflicts = None, verbose = Some (mo_verbose opts),
                    configMergeResults = None, workspaceDepsUpdates = None \<rparr>)"
    using assms call by (auto simp: MergeCmd_report_def Let_def)
  show "length (mergedOf (outcomes mergeOne ids st)) + length (failedOf (outcomes mergeOne ids st))
           = length ids"
    by (simp add: length_mergedOf_failedOf length_outcomes)
  show "case out of
              Merged c \<Rightarrow> c \<in> set (mergedOf (outcomes mergeOne ids st))
            | NothingToMerge cid msg \<Rightarrow>
                \<lparr> fc_id = cid, failureMessage = msg, unchangedLegitimately = True \<rparr>
                  \<in> set (failedOf (outcomes mergeOne ids st))
            | MergeFailure cid msg \<Rightarrow>
                \<lparr> fc_id = cid, failureMessage = msg, unchangedLegitimately = False \<rparr>
                  \<in> set (failedOf (outcomes mergeOne ids st))"
    if "out \<in> set (outcomes mergeOne ids st)" for out
    using failedOf_complete[OF that] .
  show "(if unchangedLegitimately f then NothingToMerge (fc_id f) (failureMessage f)
             else MergeFailure (fc_id f) (failureMessage f)) \<in> set (outcomes mergeOne ids st)"
    if "f \<in> set (failedOf (outcomes mergeOne ids st))" for f
    using failedOf_sound[OF that] .
qed

text \<open>
  The batch \<open>comp/b\<close>, \<open>comp/missing\<close>, \<open>comp/a\<close>: one merged component and two
  failed ones, of which one legitimately, in one report.
\<close>

theorem merge_batch_collects_component_failures_witness:
  "fst (MergeCmd_report plain_env getMergeStrategy (merging_merge_spec sample_mergeOne)
          [''comp/b'', ''comp/missing'', ''comp/a''] default_merge_options 0)
   = Inr (mergeReport plain_env
            \<lparr> components = Some [\<lparr> av_id = ''comp/a@0.0.2'', filesStatus = [(''index.ts'', ''updated'')] \<rparr>],
              failedComponents = Some sample_failed,
              removedComponents = None, r_version = None,
              resolvedComponents = None, abortedComponents = None,
              mergeSnapResults = None, mergeSnapError = None,
              leftUnresolvedConflicts = None, verbose = Some False,
              configMergeResults = None, workspaceDepsUpdates = None \<rparr>)
   \<and> length (mergedOf (outcomes sample_mergeOne [''comp/b'', ''comp/missing'', ''comp/a''] 0)) = 1
   \<and> length (failedOf (outcomes sample_mergeOne [''comp/b'', ''comp/missing'', ''comp/a''] 0)) = 2"
  using merge_batch_collects_component_failures
          [where gms = getMergeStrategy and opts = default_merge_options and strategy = Manual
             and e = plain_env and mergeOne = sample_mergeOne
             and ids = "[''comp/b'', ''comp/missing'', ''comp/a'']" and st = "0::nat"]
  by (simp add: default_merge_options_def getMergeStrategy_def sample_mergeOne_def sample_failed_def)




text \<open>
  C3. A merge invocation that sets both \<open>abort\<close> and \<open>resolve\<close> raises an error:
  the one \<open>getMergeStrategy\<close> throws on line 69 if it throws, the \<open>BitError\<close> of
  line 70 otherwise. Whatever the merge engine is, it is not called, and the state of
  the store is the one the command started from.
\<close>

theorem merge_abort_and_resolve_rejected:
  assumes "mo_abort opts" and "mo_resolve opts"
  shows "MergeCmd_report e gms engine ids opts st =
           (Inl (case gms (mo_ours opts) (mo_theirs opts) (mo_manual opts) of
                   Inl err \<Rightarrow> err
                 | Inr strategy \<Rightarrow>
                     BitError (''unable to use '' @ dq @ ''abort'' @ dq @ '' and '' @ dq
                               @ ''resolve'' @ dq @ '' flags together'')),
            st)"
  using assms by (simp add: MergeCmd_report_def split: sum.split)

text \<open>\<open>bit merge comp/a --abort --resolve\<close>: the error of line 70, and no call recorded.\<close>

theorem merge_abort_and_resolve_rejected_witness:
  "MergeCmd_report plain_env any_strategy recording_merge [''comp/a'']
     (default_merge_options\<lparr>mo_abort := True, mo_resolve := True\<rparr>) []
   = (Inl (BitError (''unable to use '' @ dq @ ''abort'' @ dq @ '' and '' @ dq
                      @ ''resolve'' @ dq @ '' flags together'')), [])"
  using merge_abort_and_resolve_rejected
          [of "default_merge_options\<lparr>mo_abort := True, mo_resolve := True\<rparr>"
              plain_env any_strategy recording_merge "[''comp/a'']" "[]"]
  by (simp add: default_merge_options_def any_strategy_def)

text \<open>
  C4. When no component of the workspace has a change and \<open>unmodified\<close> is not set in
  the parameters (neither by the option nor by the deprecated \<open>--scope\<close> or \<open>--force\<close>
  with patterns), the tag engine as the spec describes it has no candidate, returns no
  result and leaves the store as it was; \<open>TagCmd.report\<close> then returns the
  \<open>NOTHING_TO_TAG_MSG\<close> text (line 232), not an error.
\<close>

theorem tag_nothing_to_tag:
  assumes "tagParams patterns opts = (ws, Inr p)"
    and "\<not> p_unmodified p"
    and "\<forall>c \<in> set workspace. \<not> hasChanges c"
  shows "candidates matches workspace p = []
       \<and> snapping_tag_spec matches workspace tagCandidates p st = (Inr None, st)
       \<and> TagCmd_report e (snapping_tag_spec matches workspace tagCandidates) patterns opts st =
           (Inr (chalk e Yellow (NOTHING_TO_TAG_MSG e)), ws, st)"
proof -
  from assms(2,3) have none: "candidates matches workspace p = []"
    by (auto simp: candidates_def filter_empty_conv)
  then have null: "snapping_tag_spec matches workspace tagCandidates p st = (Inr None, st)"
    by (simp add: snapping_tag_spec_def)
  have "TagCmd_report e (snapping_tag_spec matches workspace tagCandidates) patterns opts st =
           (Inr (chalk e Yellow (NOTHING_TO_TAG_MSG e)), ws, st)"
    using assms(1) null by (rule TagCmd_report_null_result)
  with none null show ?thesis by simp
qed

text \<open>\<open>bit tag\<close> in a workspace of two unchanged components.\<close>

theorem tag_nothing_to_tag_witness:
  "TagCmd_report plain_env (snapping_tag_spec sample_matches sample_workspace sample_tagCandidates)
     [] default_tag_options []
   = (Inr ''nothing to tag'',
      [''--message will be mandatory in the next few releases. make sure to add a message with your tag''],
      [])"
  using tag_nothing_to_tag
          [where patterns = "[]" and opts = default_tag_options
             and ws = "[''--message will be mandatory in the next few releases. make sure to add a message with your tag'']"
             and p = "\<lparr> p_ids = [], p_snapped = False, p_unmerged = False, p_editor = [],
                        p_message = [], p_releaseType = ''patch'', p_preReleaseId = None,
                        p_ignoreIssues = None, p_ignoreNewestVersion = False,
                        p_skipTests = False, p_skipAutoTag = False, p_build = None,
                        p_soft = False, p_persist = False, p_unmodified = False,
                        p_disableTagAndSnapPipelines = False, p_forceDeploy = False,
                        p_incrementBy = 1, p_version = None \<rparr>"
             and workspace = sample_workspace and matches = sample_matches
             and tagCandidates = sample_tagCandidates and st = "[]" and e = plain_env]
  by (simp add: tagParams_def default_tag_options_def getReleaseType_def getPreReleaseId_def
        resolvedVer_def resolvedUnmodified_def deprecationWarnings_def releaseFlags_def
        DEFAULT_BIT_RELEASE_TYPE_def truthy_str_def truthy_bool_def sample_workspace_def plain_env_def)

text \<open>
  C5. With \<open>getMergeStrategy\<close> as the spec describes it: a merge invocation that sets
  more than one of \<open>ours\<close>, \<open>theirs\<close>, \<open>manual\<close> is rejected, and the command raises
  the error before it calls the engine; with at most one set the strategy is the one
  set, and \<open>manual\<close> when none is; with neither \<open>ours\<close> nor \<open>theirs\<close> set, and flags
  that pass lines 70-71, the engine is called with \<open>manual\<close>.
\<close>

theorem merge_strategy_exclusive_default_manual:
  "(1 < length (filter (\<lambda>x. x) [mo_ours opts, mo_theirs opts, mo_manual opts]) \<longrightarrow>
      (\<exists>err. getMergeStrategy (mo_ours opts) (mo_theirs opts) (mo_manual opts) = Inl err)
      \<and> (\<exists>err. MergeCmd_report e getMergeStrategy engine ids opts st = (Inl err, st)))
   \<and> (length (filter (\<lambda>x. x) [mo_ours opts, mo_theirs opts, mo_manual opts]) \<le> 1 \<longrightarrow>
      getMergeStrategy (mo_ours opts) (mo_theirs opts) (mo_manual opts) =
        Inr (if mo_ours opts then Ours else if mo_theirs opts then Theirs else Manual))
   \<and> (\<not> mo_ours opts \<and> \<not> mo_theirs opts
        \<and> \<not> (mo_abort opts \<and> mo_resolve opts)
        \<and> \<not> (mo_noSnap opts \<and> truthy_opt truthy_str (mo_message opts)) \<longrightarrow>
      snd (MergeCmd_report e getMergeStrategy engine ids opts st) =
        snd (engine \<lparr> ma_ids = ids, ma_mergeStrategy = Manual,
                      ma_abort = mo_abort opts, ma_resolve = mo_resolve opts,
                      ma_noSnap = mo_noSnap opts, ma_message = mo_message opts,
                      ma_build = (if isFeatureEnabled_BUILD_ON_CI e then mo_build opts else True),
                      ma_skipDependencyInstallation = mo_skipDependencyInstallation opts \<rparr> st))"
  by (auto simp: getMergeStrategy_def MergeCmd_report_def Let_def
           split: sum.splits prod.splits option.splits)

text \<open>\<open>bit merge comp/a --ours --theirs\<close> is rejected; \<open>bit merge comp/a\<close> merges with manual.\<close>

theorem merge_strategy_exclusive_default_manual_witness:
  "MergeCmd_report plain_env getMergeStrategy recording_merge [''comp/a'']
     (default_merge_options\<lparr>mo_ours := True, mo_theirs := True\<rparr>) []
     = (Inl (OtherError ''ours, theirs and manual are mutually exclusive''), [])
   \<and> getMergeStrategy False False False = Inr Manual
   \<and> map ma_mergeStrategy
         (snd (MergeCmd_report plain_env getMergeStrategy recording_merge [''comp/a''] default_merge_options []))
     = [Manual]"
  using merge_strategy_exclusive_default_manual
          [where opts = "default_merge_options\<lparr>mo_ours := True, mo_theirs := True\<rparr>"
             and e = plain_env and engine = recording_merge and ids = "[''comp/a'']" and st = "[]"]
        merge_strategy_exclusive_default_manual
          [where opts = default_merge_options
             and e = plain_env and engine = recording_merge and ids = "[''comp/a'']" and st = "[]"]
  by (simp add: default_merge_options_def getMergeStrategy_def recording_merge_def truthy_str_def
        MergeCmd_report_def plain_env_def)

text \<open>
  C6. A tag invocation that sets more than one of the flags \<open>patch\<close>, \<open>minor\<close>,
  \<open>major\<close>, \<open>pre-release\<close> fails with a \<open>BitError\<close>; the tag engine is not called and
  the state of the store is unchanged, whatever the engine is. When no earlier check
  throws, the error is the one of line 180.
\<close>

theorem tag_conflicting_bump_flags_rejected:
  assumes "1 < length (releaseFlags opts)"
  shows "(\<exists>msg ws. TagCmd_report e engine patterns opts st = (Inl (BitError msg), ws, st))
       \<and> (opt_ignoreUnresolvedDependencies opts = None
            \<and> opt_ignoreIssues opts \<noteq> Some (JBool True)
            \<and> \<not> truthy_opt truthy_str (opt_prereleaseId opts)
          \<longrightarrow> TagCmd_report e engine patterns opts st =
                (Inl (BitError ''you can use only one of the following - patch, minor, major, pre-release''),
                 deprecationWarnings opts, st))"
  using assms by (auto simp: TagCmd_report_def tagParams_def)

text \<open>\<open>bit tag --patch --major\<close>: the error of line 180, and no call recorded.\<close>

theorem tag_conflicting_bump_flags_rejected_witness:
  "TagCmd_report plain_env recording_tag []
     (default_tag_options\<lparr>opt_patch := Some True, opt_major := Some True\<rparr>) []
   = (Inl (BitError ''you can use only one of the following - patch, minor, major, pre-release''),
      [''--message will be mandatory in the next few releases. make sure to add a message with your tag''], [])"
  using tag_conflicting_bump_flags_rejected
          [of "default_tag_options\<lparr>opt_patch := Some True, opt_major := Some True\<rparr>"
              plain_env recording_tag "[]" "[]"]
  by (simp add: default_tag_options_def releaseFlags_def deprecationWarnings_def truthy_str_def truthy_bool_def)

text \<open>
  C7. A tag invocation whose \<open>--increment\<close> is a non-empty string outside
  \<open>RELEASE_TYPES\<close> fails with a \<open>BitError\<close>, with the engine not called and the state
  of the store unchanged. An \<open>--increment\<close> in \<open>RELEASE_TYPES\<close> is what
  \<open>getReleaseType\<close> returns, whatever the sugar flags are; it is the release type of
  every \<open>params\<close> object the command builds, and the command does build one when none
  of the other four checks throws. (Line 184 tests truthiness: an empty string counts
  as no \<open>--increment\<close>.)
\<close>

theorem tag_increment_validated:
  "(opt_increment opts = Some inc \<and> inc \<noteq> [] \<and> inc \<notin> set RELEASE_TYPES
      \<longrightarrow> (\<exists>msg ws. TagCmd_report e engine patterns opts st = (Inl (BitError msg), ws, st)))
   \<and> (opt_increment opts = Some inc \<and> inc \<in> set RELEASE_TYPES
      \<longrightarrow> getReleaseType opts = Inr inc
          \<and> (\<forall>ws p. tagParams patterns opts = (ws, Inr p) \<longrightarrow> p_releaseType p = inc)
          \<and> (opt_ignoreUnresolvedDependencies opts = None
               \<and> opt_ignoreIssues opts \<noteq> Some (JBool True)
               \<and> \<not> (truthy_opt truthy_str (opt_prereleaseId opts) \<and> inc \<in> {''major'', ''minor'', ''patch''})
               \<and> length (releaseFlags opts) \<le> 1
             \<longrightarrow> (\<exists>p. tagParams patterns opts = (deprecationWarnings opts, Inr p)
                       \<and> p_releaseType p = inc)))"
  by (auto simp: TagCmd_report_def tagParams_def truthy_str_def getReleaseType_def RELEASE_TYPES_def)

text \<open>
  \<open>bit tag --increment huge\<close> fails before the engine; \<open>--increment preminor --major\<close>
  gives preminor.
\<close>

theorem tag_increment_validated_witness:
  "(\<exists>msg ws. TagCmd_report plain_env recording_tag []
       (default_tag_options\<lparr>opt_increment := Some ''huge''\<rparr>) [] = (Inl (BitError msg), ws, []))
   \<and> getReleaseType (default_tag_options\<lparr>opt_increment := Some ''preminor'', opt_major := Some True\<rparr>)
       = Inr ''preminor''
   \<and> (\<exists>p. tagParams [] (default_tag_options\<lparr>opt_increment := Some ''preminor'', opt_major := Some True\<rparr>)
            = ([''--message will be mandatory in the next few releases. make sure to add a message with your tag''], Inr p)
          \<and> p_releaseType p = ''preminor'')"
  using tag_increment_validated
          [of "default_tag_options\<lparr>opt_increment := Some ''huge''\<rparr>" "''huge''"
              plain_env recording_tag "[]" "[]"]
        tag_increment_validated
          [of "default_tag_options\<lparr>opt_increment := Some ''preminor'', opt_major := Some True\<rparr>"
              "''preminor''" plain_env recording_tag "[]" "[]"]
  by (simp add: default_tag_options_def RELEASE_TYPES_def releaseFlags_def deprecationWarnings_def
        truthy_str_def truthy_bool_def)

text \<open>
  C8. The \<open>params\<close> object that \<open>TagCmd.report\<close> builds, when it builds one, resolves
  the flags with a fixed precedence. Release type: a set \<open>--increment\<close> wins over the
  sugar flags; without it the one sugar flag that is set decides (major, minor, patch,
  prerelease), and with none the release type is the default, patch. Version: a
  non-empty string value of \<open>--scope\<close>, else a non-empty string value of \<open>--all\<close>,
  else \<open>--ver\<close>. Unmodified: set by \<open>--scope\<close>, and by \<open>--force\<close> with patterns, else
  the \<open>--unmodified\<close> option. The command calls the engine once, with this object.
\<close>

theorem tag_options_resolved_with_precedence:
  assumes "tagParams patterns opts = (ws, Inr p)"
  shows "(truthy_opt truthy_str (opt_increment opts) \<longrightarrow> Some (p_releaseType p) = opt_increment opts)
       \<and> (\<not> truthy_opt truthy_str (opt_increment opts) \<longrightarrow>
            (truthy_opt truthy_bool (opt_major opts) \<longrightarrow> p_releaseType p = ''major'')
          \<and> (truthy_opt truthy_bool (opt_minor opts) \<longrightarrow> p_releaseType p = ''minor'')
          \<and> (truthy_opt truthy_bool (opt_patch opts) \<longrightarrow> p_releaseType p = ''patch'')
          \<and> (truthy_opt truthy (opt_preRelease opts) \<longrightarrow> p_releaseType p = ''prerelease'')
          \<and> (releaseFlags opts = [] \<longrightarrow> p_releaseType p = ''patch''))
       \<and> (\<forall>s. opt_scope opts = Some (JStr s) \<and> s \<noteq> [] \<longrightarrow> p_version p = Some s)
       \<and> (\<forall>s. opt_all opts = JStr s \<and> s \<noteq> [] \<and> \<not> (\<exists>s'. opt_scope opts = Some (JStr s') \<and> s' \<noteq> [])
              \<longrightarrow> p_version p = Some s)
       \<and> (\<not> (\<exists>s. opt_all opts = JStr s \<and> s \<noteq> []) \<and> \<not> (\<exists>s. opt_scope opts = Some (JStr s) \<and> s \<noteq> [])
              \<longrightarrow> p_version p = opt_ver opts)
       \<and> (truthy_opt truthy (opt_scope opts) \<longrightarrow> p_unmodified p)
       \<and> (opt_force opts \<and> patterns \<noteq> [] \<longrightarrow> p_unmodified p)
       \<and> (\<not> truthy_opt truthy (opt_scope opts) \<and> \<not> (opt_force opts \<and> patterns \<noteq> [])
              \<longrightarrow> p_unmodified p = opt_unmodified opts)
       \<and> TagCmd_report e engine patterns opts st =
            (case engine p st of
               (Inl err, st') \<Rightarrow> (Inl err, ws, st')
             | (Inr None, st') \<Rightarrow> (Inr (chalk e Yellow (NOTHING_TO_TAG_MSG e)), ws, st')
             | (Inr (Some results), st') \<Rightarrow> (Inr (tagOutput e results), ws, st'))"
proof (intro conjI impI allI)
  note D = tagParams_InrD[OF assms]
  show "Some (p_releaseType p) = opt_increment opts" if "truthy_opt truthy_str (opt_increment opts)"
    using tagParams_releaseType_increment[OF assms that] .
  show "p_releaseType p = ''major''"
    if "\<not> truthy_opt truthy_str (opt_increment opts)" "truthy_opt truthy_bool (opt_major opts)"
    using tagParams_releaseType_sugar(1)[OF assms that] .
  show "p_releaseType p = ''minor''"
    if "\<not> truthy_opt truthy_str (opt_increment opts)" "truthy_opt truthy_bool (opt_minor opts)"
    using tagParams_releaseType_sugar(2)[OF assms that] .
  show "p_releaseType p = ''patch''"
    if "\<not> truthy_opt truthy_str (opt_increment opts)" "truthy_opt truthy_bool (opt_patch opts)"
    using tagParams_releaseType_sugar(3)[OF assms that] .
  show "p_releaseType p = ''prerelease''"
    if "\<not> truthy_opt truthy_str (opt_increment opts)" "truthy_opt truthy (opt_preRelease opts)"
    using tagParams_releaseType_sugar(4)[OF assms that] .
  show "p_releaseType p = ''patch''"
    if "\<not> truthy_opt truthy_str (opt_increment opts)" "releaseFlags opts = []"
    using tagParams_releaseType_sugar(5)[OF assms that] .
  show "p_version p = Some s" if "opt_scope opts = Some (JStr s) \<and> s \<noteq> []" for s
    using that resolvedVer_cases(1)[of opts s] D(4) by simp
  show "p_version p = Some s"
    if "opt_all opts = JStr s \<and> s \<noteq> [] \<and> \<not> (\<exists>s'. opt_scope opts = Some (JStr s') \<and> s' \<noteq> [])" for s
    using that resolvedVer_cases(2)[of opts s] D(4) by simp
  show "p_version p = opt_ver opts"
    if "\<not> (\<exists>s. opt_all opts = JStr s \<and> s \<noteq> []) \<and> \<not> (\<exists>s. opt_scope opts = Some (JStr s) \<and> s \<noteq> [])"
    using that resolvedVer_cases(3)[of opts] D(4) by simp
  show "p_unmodified p" if "truthy_opt truthy (opt_scope opts)"
    using that resolvedUnmodified_cases(1)[of opts patterns] D(5) by simp
  show "p_unmodified p" if "opt_force opts \<and> patterns \<noteq> []"
    using that resolvedUnmodified_cases(2)[of opts patterns] D(5) by simp
  show "p_unmodified p = opt_unmodified opts"
    if "\<not> truthy_opt truthy (opt_scope opts) \<and> \<not> (opt_force opts \<and> patterns \<noteq> [])"
    using that resolvedUnmodified_cases(3)[of opts patterns] D(5) by simp
  show "TagCmd_report e engine patterns opts st =
            (case engine p st of
               (Inl err, st') \<Rightarrow> (Inl err, ws, st')
             | (Inr None, st') \<Rightarrow> (Inr (chalk e Yellow (NOTHING_TO_TAG_MSG e)), ws, st')
             | (Inr (Some results), st') \<Rightarrow> (Inr (tagOutput e results), ws, st'))"
    using TagCmd_report_engine_call[OF assms] .
qed

text \<open>
  Three invocations: \<open>--increment minor --major --all 1.0.0 --scope 2.0.0\<close> with a
  pattern, no flag at all, and \<open>--force --major --all 1.0.0\<close> with a pattern.
\<close>

theorem tag_options_resolved_with_precedence_witness:
  "map p_releaseType (snd (snd (TagCmd_report plain_env recording_tag [''x'']
      (default_tag_options\<lparr>opt_increment := Some ''minor'', opt_major := Some True,
                            opt_all := JStr ''1.0.0'', opt_scope := Some (JStr ''2.0.0'')\<rparr>) [])))
     = [''minor'']
   \<and> map p_version (snd (snd (TagCmd_report plain_env recording_tag [''x'']
      (default_tag_options\<lparr>opt_increment := Some ''minor'', opt_major := Some True,
                            opt_all := JStr ''1.0.0'', opt_scope := Some (JStr ''2.0.0'')\<rparr>) [])))
     = [Some ''2.0.0'']
   \<and> map p_unmodified (snd (snd (TagCmd_report plain_env recording_tag [''x'']
      (default_tag_options\<lparr>opt_increment := Some ''minor'', opt_major := Some True,
                            opt_all := JStr ''1.0.0'', opt_scope := Some (JStr ''2.0.0'')\<rparr>) [])))
     = [True]
   \<and> map p_releaseType (snd (snd (TagCmd_report plain_env recording_tag [] default_tag_options [])))
     = [''patch'']
   \<and> map p_unmodified (snd (snd (TagCmd_report plain_env recording_tag [] default_tag_options [])))
     = [False]
   \<and> map p_releaseType (snd (snd (TagCmd_report plain_env recording_tag [''x'']
      (default_tag_options\<lparr>opt_force := True, opt_major := Some True, opt_all := JStr ''1.0.0''\<rparr>) [])))
     = [''major'']
   \<and> map p_version (snd (snd (TagCmd_report plain_env recording_tag [''x'']
      (default_tag_options\<lparr>opt_force := True, opt_major := Some True, opt_all := JStr ''1.0.0''\<rparr>) [])))
     = [Some ''1.0.0'']
   \<and> map p_unmodified (snd (snd (TagCmd_report plain_env recording_tag [''x'']
      (default_tag_options\<lparr>opt_force := True, opt_major := Some True, opt_all := JStr ''1.0.0''\<rparr>) [])))
     = [True]"
proof -
  let ?o1 = "default_tag_options\<lparr>opt_increment := Some ''minor'', opt_major := Some True,
                            opt_all := JStr ''1.0.0'', opt_scope := Some (JStr ''2.0.0'')\<rparr>"
  let ?o3 = "default_tag_options\<lparr>opt_force := True, opt_major := Some True, opt_all := JStr ''1.0.0''\<rparr>"
  obtain ws1 p1 where t1: "tagParams [''x''] ?o1 = (ws1, Inr p1)"
    by (simp add: tagParams_def default_tag_options_def getReleaseType_def releaseFlags_def
          RELEASE_TYPES_def truthy_str_def truthy_bool_def)
  obtain ws2 p2 where t2: "tagParams [] default_tag_options = (ws2, Inr p2)"
    by (simp add: tagParams_def default_tag_options_def getReleaseType_def releaseFlags_def
          truthy_str_def truthy_bool_def)
  obtain ws3 p3 where t3: "tagParams [''x''] ?o3 = (ws3, Inr p3)"
    by (simp add: tagParams_def default_tag_options_def getReleaseType_def releaseFlags_def
          truthy_str_def truthy_bool_def)
  from tag_options_resolved_with_precedence[OF t1, of plain_env recording_tag "[]"]
  have r1: "p_releaseType p1 = ''minor''" "p_version p1 = Some ''2.0.0''" "p_unmodified p1"
    "snd (snd (TagCmd_report plain_env recording_tag [''x''] ?o1 [])) = [p1]"
    by (simp_all add: default_tag_options_def truthy_str_def recording_tag_def)
  from tag_options_resolved_with_precedence[OF t2, of plain_env recording_tag "[]"]
  have r2: "p_releaseType p2 = ''patch''" "\<not> p_unmodified p2"
    "snd (snd (TagCmd_report plain_env recording_tag [] default_tag_options [])) = [p2]"
    by (simp_all add: default_tag_options_def truthy_str_def releaseFlags_def recording_tag_def)
  from tag_options_resolved_with_precedence[OF t3, of plain_env recording_tag "[]"]
  have r3: "p_releaseType p3 = ''major''" "p_version p3 = Some ''1.0.0''" "p_unmodified p3"
    "snd (snd (TagCmd_report plain_env recording_tag [''x''] ?o3 [])) = [p3]"
    by (simp_all add: default_tag_options_def truthy_str_def truthy_bool_def recording_tag_def)
  from r1 r2 r3 show ?thesis by simp
qed

text \<open>
  C9. A merge invocation that sets \<open>noSnap\<close> and gives a message (a non-empty string)
  raises an error before the merge engine is called: the error of \<open>getMergeStrategy\<close>
  if it throws, the \<open>BitError\<close> of line 70 if \<open>abort\<close> and \<open>resolve\<close> are both set,
  the \<open>BitError\<close> of line 71 otherwise. The state of the store is unchanged.
\<close>

theorem merge_noSnap_and_message_rejected:
  assumes "mo_noSnap opts" and "mo_message opts = Some msg" and "msg \<noteq> []"
  shows "MergeCmd_report e gms engine ids opts st =
           (Inl (case gms (mo_ours opts) (mo_theirs opts) (mo_manual opts) of
                   Inl err \<Rightarrow> err
                 | Inr strategy \<Rightarrow>
                     if mo_abort opts \<and> mo_resolve opts
                     then BitError (''unable to use '' @ dq @ ''abort'' @ dq @ '' and '' @ dq
                                    @ ''resolve'' @ dq @ '' flags together'')
                     else BitError (''unable to use '' @ dq @ ''noSnap'' @ dq @ '' and '' @ dq
                                    @ ''message'' @ dq @ '' flags together'')),
            st)"
  using assms by (auto simp: MergeCmd_report_def truthy_str_def split: sum.split)

text \<open>\<open>bit merge comp/a --no-snap --message "my snap"\<close>: the error of line 71.\<close>

theorem merge_noSnap_and_message_rejected_witness:
  "MergeCmd_report plain_env any_strategy recording_merge [''comp/a'']
     (default_merge_options\<lparr>mo_noSnap := True, mo_message := Some ''my snap''\<rparr>) []
   = (Inl (BitError (''unable to use '' @ dq @ ''noSnap'' @ dq @ '' and '' @ dq
                      @ ''message'' @ dq @ '' flags together'')), [])"
  using merge_noSnap_and_message_rejected
          [of "default_merge_options\<lparr>mo_noSnap := True, mo_message := Some ''my snap''\<rparr>"
              "''my snap''" plain_env any_strategy recording_merge "[''comp/a'']" "[]"]
  by (simp add: default_merge_options_def any_strategy_def)

text \<open>
  C10. For a result with failed components: when the output is not verbose, the listing
  of \<open>getFailureOutput\<close> has a line for each component that is not unchanged
  legitimately and for no other, and when all are unchanged legitimately the listing
  gives way to one line with their count; when the output is verbose every failed
  component has its line. The summary does not read \<open>verbose\<close>: whatever \<open>verbose\<close>
  is, its text prints after Total Unchanged the number of the legitimately unchanged
  components and after Total Failed the number of the others. The report is the
  sequence of its parts, the failure listing second and the summary last.
\<close>

theorem merge_report_hides_legitimately_unchanged:
  assumes "failedComponents r = Some fs" and "fs \<noteq> []"
  shows "(\<not> truthy_opt truthy_bool (verbose r) \<and> (\<exists>f \<in> set fs. \<not> unchangedLegitimately f) \<longrightarrow>
            getFailureOutput e r =
              nl @ chalk e Underline (nl @ ''the merge has been skipped on the following component(s)'')
              @ nl
              @ js_join nl
                  (map (\<lambda>f. chalk e Bold (idToString e (fc_id f)) @ '' - '' @ chalk e Red (failureMessage f))
                     (filter (\<lambda>f. \<not> unchangedLegitimately f) fs))
              @ nl @ nl)
       \<and> (\<not> truthy_opt truthy_bool (verbose r) \<and> (\<forall>f \<in> set fs. unchangedLegitimately f) \<longrightarrow>
            getFailureOutput e r =
              chalk e Bold (nl @ ''the merge has been skipped on '' @ toString_nat (length fs)
                            @ '' component(s) legitimately'')
              @ nl @ ''(use --verbose to list them next time)'')
       \<and> (truthy_opt truthy_bool (verbose r) \<longrightarrow>
            getFailureOutput e r =
              nl @ chalk e Underline (nl @ ''the merge has been skipped on the following component(s)'')
              @ nl
              @ js_join nl
                  (map (\<lambda>f. chalk e Bold (idToString e (fc_id f)) @ '' - ''
                            @ chalk e (if unchangedLegitimately f then White else Red) (failureMessage f)) fs)
              @ nl @ nl)
       \<and> getSummary e (r\<lparr>verbose := v\<rparr>) = getSummary e r
       \<and> totalUnchanged (r\<lparr>verbose := v\<rparr>) = length (filter (\<lambda>f. unchangedLegitimately f) fs)
       \<and> totalFailed (r\<lparr>verbose := v\<rparr>) = length (filter (\<lambda>f. \<not> unchangedLegitimately f) fs)
       \<and> getSummary e (r\<lparr>verbose := v\<rparr>) =
              nl @ nl @ chalk e BoldUnderline ''Merge Summary''
              @ nl @ ''Total Merged: ''
              @ chalk e Bold (toString_nat (case components r of None \<Rightarrow> 0 | Some cs \<Rightarrow> length cs))
              @ nl @ ''Total Unchanged: ''
              @ chalk e Bold (toString_nat (length (filter (\<lambda>f. unchangedLegitimately f) fs)))
              @ nl @ ''Total Failed: ''
              @ chalk e Bold (toString_nat (length (filter (\<lambda>f. \<not> unchangedLegitimately f) fs)))
              @ nl @ ''Total Snapped: ''
              @ chalk e Bold (toString_nat
                  (case mergeSnapResults r of
                     None \<Rightarrow> 0
                   | Some m \<Rightarrow> length (snappedComponents m) + length (autoSnappedResults m)))
              @ nl @ ''Total Removed: ''
              @ chalk e Bold (case removedComponents r of
                                None \<Rightarrow> ''0''
                              | Some rs \<Rightarrow> toString_nat (length rs))
       \<and> mergeReport e r =
              getSuccessOutput e r
              @ getFailureOutput e r
              @ getRemovedOutput e (removedComponents r)
              @ getSnapsOutput e r
              @ getWorkspaceDepsOutput e r
              @ getConfigMergeConflictSummary e r
              @ getConflictSummary e r
              @ getSummary e r"
proof (intro conjI impI)
  show "getFailureOutput e r =
              nl @ chalk e Underline (nl @ ''the merge has been skipped on the following component(s)'')
              @ nl
              @ js_join nl
                  (map (\<lambda>f. chalk e Bold (idToString e (fc_id f)) @ '' - '' @ chalk e Red (failureMessage f))
                     (filter (\<lambda>f. \<not> unchangedLegitimately f) fs))
              @ nl @ nl"
    if "\<not> truthy_opt truthy_bool (verbose r) \<and> (\<exists>f \<in> set fs. \<not> unchangedLegitimately f)"
    using getFailureOutput_quiet_some_failed[OF assms(1)] that by blast
  show "getFailureOutput e r =
              chalk e Bold (nl @ ''the merge has been skipped on '' @ toString_nat (length fs)
                            @ '' component(s) legitimately'')
              @ nl @ ''(use --verbose to list them next time)''"
    if "\<not> truthy_opt truthy_bool (verbose r) \<and> (\<forall>f \<in> set fs. unchangedLegitimately f)"
    using getFailureOutput_quiet_all_legit[OF assms] that by blast
  show "getFailureOutput e r =
              nl @ chalk e Underline (nl @ ''the merge has been skipped on the following component(s)'')
              @ nl
              @ js_join nl
                  (map (\<lambda>f. chalk e Bold (idToString e (fc_id f)) @ '' - ''
                            @ chalk e (if unchangedLegitimately f then White else Red) (failureMessage f)) fs)
              @ nl @ nl"
    if "truthy_opt truthy_bool (verbose r)"
    using getFailureOutput_verbose[OF assms that] .
  show "getSummary e (r\<lparr>verbose := v\<rparr>) = getSummary e r"
    by (rule getSummary_verbose_irrelevant)
  show "totalUnchanged (r\<lparr>verbose := v\<rparr>) = length (filter (\<lambda>f. unchangedLegitimately f) fs)"
    using assms(1) by (simp add: totalUnchanged_def)
  show "totalFailed (r\<lparr>verbose := v\<rparr>) = length (filter (\<lambda>f. \<not> unchangedLegitimately f) fs)"
    using assms(1) by (simp add: totalFailed_def)
  show "getSummary e (r\<lparr>verbose := v\<rparr>) =
              nl @ nl @ chalk e BoldUnderline ''Merge Summary''
              @ nl @ ''Total Merged: ''
              @ chalk e Bold (toString_nat (case components r of None \<Rightarrow> 0 | Some cs \<Rightarrow> length cs))
              @ nl @ ''Total Unchanged: ''
              @ chalk e Bold (toString_nat (length (filter (\<lambda>f. unchangedLegitimately f) fs)))
              @ nl @ ''Total Failed: ''
              @ chalk e Bold (toString_nat (length (filter (\<lambda>f. \<not> unchangedLegitimately f) fs)))
              @ nl @ ''Total Snapped: ''
              @ chalk e Bold (toString_nat
                  (case mergeSnapResults r of
                     None \<Rightarrow> 0
                   | Some m \<Rightarrow> length (snappedComponents m) + length (autoSnappedResults m)))
              @ nl @ ''Total Removed: ''
              @ chalk e Bold (case removedComponents r of
                                None \<Rightarrow> ''0''
                              | Some rs \<Rightarrow> toString_nat (length rs))"
    using assms(1) by (rule getSummary_text)
  show "mergeReport e r =
              getSuccessOutput e r
              @ getFailureOutput e r
              @ getRemovedOutput e (removedComponents r)
              @ getSnapsOutput e r
              @ getWorkspaceDepsOutput e r
              @ getConfigMergeConflictSummary e r
              @ getConflictSummary e r
              @ getSummary e r"
    by (simp add: mergeReport_def)
qed

text \<open>
  Two failed components, one of them legitimately: listed without it, counted alone,
  and listed in full with \<open>--verbose\<close>; the summary prints one unchanged and one
  failed either way.
\<close>

theorem merge_report_hides_legitimately_unchanged_witness:
  "getFailureOutput plain_env (sample_results sample_failed False)
     = nl @ nl @ ''the merge has been skipped on the following component(s)'' @ nl
       @ ''comp/missing - component was not found'' @ nl @ nl
   \<and> getFailureOutput plain_env (sample_results [hd sample_failed] False)
     = nl @ ''the merge has been skipped on 1 component(s) legitimately'' @ nl
       @ ''(use --verbose to list them next time)''
   \<and> getFailureOutput plain_env (sample_results sample_failed True)
     = nl @ nl @ ''the merge has been skipped on the following component(s)'' @ nl
       @ ''comp/b@0.0.1 - component is already up to date'' @ nl
       @ ''comp/missing - component was not found'' @ nl @ nl
   \<and> totalUnchanged (sample_results sample_failed True) = 1
   \<and> totalFailed (sample_results sample_failed True) = 1
   \<and> getSummary plain_env (sample_results sample_failed True)
     = getSummary plain_env (sample_results sample_failed False)
   \<and> getSummary plain_env (sample_results sample_failed True)
     = nl @ nl @ ''Merge Summary'' @ nl @ ''Total Merged: 0'' @ nl @ ''Total Unchanged: 1''
       @ nl @ ''Total Failed: 1'' @ nl @ ''Total Snapped: 0'' @ nl @ ''Total Removed: 0''
   \<and> mergeReport plain_env (sample_results sample_failed False)
     = nl @ nl @ ''the merge has been skipped on the following component(s)'' @ nl
       @ ''comp/missing - component was not found'' @ nl @ nl
       @ nl @ nl @ ''Merge Summary'' @ nl @ ''Total Merged: 0'' @ nl @ ''Total Unchanged: 1''
       @ nl @ ''Total Failed: 1'' @ nl @ ''Total Snapped: 0'' @ nl @ ''Total Removed: 0''"
  using merge_report_hides_legitimately_unchanged
          [where r = "sample_results sample_failed False" and fs = sample_failed
             and e = plain_env and v = "Some True"]
        merge_report_hides_legitimately_unchanged
          [where r = "sample_results [hd sample_failed] False" and fs = "[hd sample_failed]"
             and e = plain_env and v = "Some True"]
        merge_report_hides_legitimately_unchanged
          [where r = "sample_results sample_failed True" and fs = sample_failed
             and e = plain_env and v = "Some False"]
  by (simp add: sample_results_def sample_failed_def plain_env_def truthy_bool_def
        toString_nat_digits toString_nat_Suc_0 getSummary_def totalMerged_def totalUnchanged_def
        totalFailed_def totalSnapped_def getSuccessOutput_def getRemovedOutput_def
        getSnapsOutput_def getWorkspaceDepsOutput_def getConfigMergeConflictSummary_def
        getConflictSummary_def)

end
